theory Spec2Isabelle
  imports Complex_Main
begin

section \<open>JavaScript values, strings and numbers\<close>

text \<open>
  The worker (\<^verbatim>\<open>src/src/worker.js\<close>) handles JSON that a client or a language model
  wrote, so most of its inputs are dynamically typed.  A number is a double: not-a-number,
  an infinity, or a finite value, kept here as the real number it denotes (rounding to the
  nearest double and the sign of zero are not represented).  A value is a primitive, or an
  array or object, which is carried as the string its \<^verbatim>\<open>toString()\<close> renders, since that
  string is all the coercions of this file look at.  Strings are ASCII.
\<close>

datatype jsnum = NaN | PosInf | NegInf | Fin real

datatype jsval = JUndefined | JNull | JBool bool | JNum jsnum | JStr string | JObj string

fun truthy :: "jsval \<Rightarrow> bool" where
  "truthy JUndefined = False"
| "truthy JNull = False"
| "truthy (JBool b) = b"
| "truthy (JNum n) = (n \<noteq> NaN \<and> n \<noteq> Fin 0)"
| "truthy (JStr s) = (s \<noteq> [])"
| "truthy (JObj s) = True"

text \<open>\<^verbatim>\<open>a || b\<close> and \<^verbatim>\<open>a ?? b\<close>.\<close>

definition jsOr :: "jsval \<Rightarrow> jsval \<Rightarrow> jsval" where
  "jsOr a b = (if truthy a then a else b)"

definition nullish :: "jsval \<Rightarrow> jsval \<Rightarrow> jsval" where
  "nullish a b = (if a = JUndefined \<or> a = JNull then b else a)"

subsection \<open>String methods\<close>

definition isWs :: "char \<Rightarrow> bool" where
  "isWs c = (c \<in> set [CHR 0x09, CHR 0x0A, CHR 0x0B, CHR 0x0C, CHR 0x0D, CHR '' ''])"

definition trim :: "string \<Rightarrow> string" where
  "trim s = rev (dropWhile isWs (rev (dropWhile isWs s)))"

definition lowerChar :: "char \<Rightarrow> char" where
  "lowerChar c =
     (case map_of (zip ''ABCDEFGHIJKLMNOPQRSTUVWXYZ'' ''abcdefghijklmnopqrstuvwxyz'') c of
        Some l \<Rightarrow> l
      | None \<Rightarrow> c)"

definition toLowerCase :: "string \<Rightarrow> string" where
  "toLowerCase s = map lowerChar s"

fun startsWith :: "string \<Rightarrow> string \<Rightarrow> bool" where
  "startsWith s [] = True"
| "startsWith [] (x # xs) = False"
| "startsWith (c # cs) (x # xs) = (c = x \<and> startsWith cs xs)"

definition endsWith :: "string \<Rightarrow> string \<Rightarrow> bool" where
  "endsWith s x = startsWith (rev s) (rev x)"

fun includesStr :: "string \<Rightarrow> string \<Rightarrow> bool" where
  "includesStr [] x = (x = [])"
| "includesStr (c # cs) x = (startsWith (c # cs) x \<or> includesStr cs x)"

subsection \<open>\<^verbatim>\<open>Number(v)\<close>\<close>

text \<open>
  \<^verbatim>\<open>Number\<close> of a string follows the grammar of numeric string literals: surrounding
  white space is dropped, the empty string is 0, then comes a radix-prefixed integer
  (\<^verbatim>\<open>0x\<close>, \<^verbatim>\<open>0o\<close>, \<^verbatim>\<open>0b\<close>) or an optionally signed decimal literal or \<^verbatim>\<open>Infinity\<close>;
  anything else is \<^verbatim>\<open>NaN\<close>.  A magnitude that a double rounds to infinity becomes one.
\<close>

definition digitVal :: "char \<Rightarrow> nat option" where
  "digitVal c =
     map_of (zip ''0123456789abcdef'' [0, 1, 2, 3, 4, 5, 6, 7, 8, 9, 10, 11, 12, 13, 14, 15])
       (lowerChar c)"

definition isDigit :: "char \<Rightarrow> bool" where
  "isDigit c = (c \<in> set ''0123456789'')"

fun digitsVal :: "nat \<Rightarrow> string \<Rightarrow> nat \<Rightarrow> nat option" where
  "digitsVal b [] acc = Some acc"
| "digitsVal b (c # cs) acc =
     (case digitVal c of
        None \<Rightarrow> None
      | Some d \<Rightarrow> if d < b then digitsVal b cs (acc * b + d) else None)"

definition toDouble :: "real \<Rightarrow> jsnum" where
  "toDouble x =
     (if 2 ^ 1024 - 2 ^ 970 \<le> x then PosInf
      else if x \<le> - (2 ^ 1024 - 2 ^ 970) then NegInf
      else Fin x)"

fun negate :: "jsnum \<Rightarrow> jsnum" where
  "negate NaN = NaN"
| "negate PosInf = NegInf"
| "negate NegInf = PosInf"
| "negate (Fin x) = Fin (- x)"

definition exponentPart :: "string \<Rightarrow> int option" where
  "exponentPart r =
     (if r = [] then Some 0
      else if hd r = CHR ''e'' \<or> hd r = CHR ''E'' then
        (let t = tl r;
             ds = (if startsWith t ''-'' \<or> startsWith t ''+'' then tl t else t)
         in if ds = [] then None
            else map_option (\<lambda>n. if startsWith t ''-'' then - int n else int n)
                   (digitsVal 10 ds 0))
      else None)"

definition scale10 :: "nat \<Rightarrow> int \<Rightarrow> real" where
  "scale10 m k = (if 0 \<le> k then real m * 10 ^ nat k else real m / 10 ^ nat (- k))"

definition strUnsignedDecimal :: "string \<Rightarrow> jsnum" where
  "strUnsignedDecimal s =
     (if s = ''Infinity'' then PosInf
      else
        let ip = takeWhile isDigit s;
            r1 = dropWhile isDigit s;
            fp = (if startsWith r1 ''.'' then takeWhile isDigit (tl r1) else []);
            r2 = (if startsWith r1 ''.'' then dropWhile isDigit (tl r1) else r1)
        in if ip = [] \<and> fp = [] then NaN
           else
             (case exponentPart r2 of
                None \<Rightarrow> NaN
              | Some e \<Rightarrow>
                  (case digitsVal 10 (ip @ fp) 0 of
                     None \<Rightarrow> NaN
                   | Some m \<Rightarrow> toDouble (scale10 m (e - int (length fp))))))"

definition strDecimal :: "string \<Rightarrow> jsnum" where
  "strDecimal s =
     (if startsWith s ''-'' then negate (strUnsignedDecimal (tl s))
      else if startsWith s ''+'' then strUnsignedDecimal (tl s)
      else strUnsignedDecimal s)"

definition radixOf :: "string \<Rightarrow> nat option" where
  "radixOf s =
     (if startsWith s ''0x'' \<or> startsWith s ''0X'' then Some 16
      else if startsWith s ''0o'' \<or> startsWith s ''0O'' then Some 8
      else if startsWith s ''0b'' \<or> startsWith s ''0B'' then Some 2
      else None)"

definition stringToNumber :: "string \<Rightarrow> jsnum" where
  "stringToNumber s =
     (let t = trim s in
      if t = [] then Fin 0
      else
        (case radixOf t of
           Some b \<Rightarrow>
             (if drop 2 t = [] then NaN
              else case digitsVal b (drop 2 t) 0 of
                     None \<Rightarrow> NaN
                   | Some m \<Rightarrow> toDouble (real m))
         | None \<Rightarrow> strDecimal t))"

fun toNumber :: "jsval \<Rightarrow> jsnum" where
  "toNumber JUndefined = NaN"
| "toNumber JNull = Fin 0"
| "toNumber (JBool b) = Fin (if b then 1 else 0)"
| "toNumber (JNum n) = n"
| "toNumber (JStr s) = stringToNumber s"
| "toNumber (JObj s) = stringToNumber s"

fun isFinite :: "jsnum \<Rightarrow> bool" where
  "isFinite (Fin x) = True"
| "isFinite n = False"

text \<open>\<^verbatim>\<open>Math.trunc\<close> of a finite number.\<close>

definition trunc :: "real \<Rightarrow> int" where
  "trunc x = (if 0 \<le> x then \<lfloor>x\<rfloor> else \<lceil>x\<rceil>)"

section \<open>Request options\<close>

text \<open>
  \<^verbatim>\<open>clampInt(v, min, max)\<close> (lines 409--413).  Every call site passes integer literals
  for the bounds, so they are integers here and so is the result.
\<close>

definition clampInt :: "jsval \<Rightarrow> int \<Rightarrow> int \<Rightarrow> int" where
  "clampInt v mn mx =
     (case toNumber v of
        Fin n \<Rightarrow> max mn (min mx (trunc n))
      | _ \<Rightarrow> mn)"

text \<open>
  The options of the request body that the research loop and the retry logic read, and the
  configuration the handler builds from them (lines 118--152).  \<open>o_forceDomains\<close> is
  \<open>Some\<close> exactly when \<^verbatim>\<open>Array.isArray(options.forceDomains)\<close>; its entries are kept as
  \<^verbatim>\<open>String(d)\<close> renders them.
\<close>

record options =
  o_maxSearchRounds :: jsval
  o_maxFacts :: jsval
  o_minNewFactsPerRound :: jsval
  o_forceDomains :: "string list option"
  o_maxRetries :: jsval

record cfg =
  maxSearchRounds :: int
  maxFacts :: int
  minNewFactsPerRound :: int
  forceDomains :: "string list option"
  maxRetries :: int

definition mkCfg :: "options \<Rightarrow> cfg" where
  "mkCfg opts =
     \<lparr> maxSearchRounds = clampInt (nullish (o_maxSearchRounds opts) (JNum (Fin 4))) 1 10,
       maxFacts = clampInt (nullish (o_maxFacts opts) (JNum (Fin 18))) 5 50,
       minNewFactsPerRound = clampInt (nullish (o_minNewFactsPerRound opts) (JNum (Fin 2))) 0 10,
       forceDomains = o_forceDomains opts,
       maxRetries = clampInt (nullish (o_maxRetries opts) (JNum (Fin 3))) 0 5 \<rparr>"

section \<open>The remote-completion call and its retries\<close>

text \<open>
  What is thrown, or stored in the \<^verbatim>\<open>error\<close> field of a result: an \<^verbatim>\<open>Error\<close> instance
  with its message, or some other value (the parsed error body of the provider), carried
  as its text.
\<close>

datatype err_val = ErrInstance string | ErrPayload string

text \<open>
  The object \<^verbatim>\<open>fn\<close> resolves to, and the argument of \<^verbatim>\<open>shouldRetry\<close>: a missing
  \<^verbatim>\<open>status\<close> or \<^verbatim>\<open>error\<close> is \<open>None\<close>.
\<close>

record fn_result =
  fr_ok :: bool
  fr_status :: "int option"
  fr_error :: "err_val option"
  fr_data :: "string option"

text \<open>\<^verbatim>\<open>defaultShouldRetry(result)\<close> (lines 494--511); \<open>None\<close> is a falsy argument.\<close>

definition defaultShouldRetry :: "fn_result option \<Rightarrow> bool" where
  "defaultShouldRetry result =
     (case result of
        None \<Rightarrow> False
      | Some r \<Rightarrow>
          if fr_status r = Some 429 then True
          else if (case fr_status r of Some st \<Rightarrow> 500 \<le> st \<and> st < 600 | None \<Rightarrow> False) then True
          else
            (case fr_error r of
               Some (ErrInstance message) \<Rightarrow>
                 (let msg = toLowerCase message in
                  includesStr msg ''network'' \<or> includesStr msg ''timeout''
                  \<or> includesStr msg ''econnreset'')
             | _ \<Rightarrow> False))"

text \<open>One call of \<^verbatim>\<open>fn\<close>: it resolves to a value (\<open>None\<close> when falsy) or rejects.\<close>

datatype outcome = Resolved "fn_result option" | Rejected err_val

text \<open>
  How \<^verbatim>\<open>retryWithBackoff\<close> ends: it returns what \<^verbatim>\<open>fn\<close> resolved to, rethrows, or falls
  out of the loop and returns \<^verbatim>\<open>lastError\<close> (\<open>None\<close> while it is still undefined).
\<close>

datatype final = Returned "fn_result option" | Thrown err_val | ReturnedLast "outcome option"

record retry_run =
  rr_final :: final
  rr_sleeps :: "int list"
  rr_calls :: nat

text \<open>
  \<^verbatim>\<open>retryWithBackoff(fn, options)\<close> (lines 454--484).  The \<open>k\<close>-th call of \<^verbatim>\<open>fn\<close> has the
  outcome \<open>fn k\<close>; the delays slept are collected in order.  No caller passes
  \<^verbatim>\<open>shouldRetry\<close>, so it is \<^verbatim>\<open>defaultShouldRetry\<close>.
\<close>

function retryLoop ::
  "(nat \<Rightarrow> outcome) \<Rightarrow> int \<Rightarrow> int \<Rightarrow> int \<Rightarrow> int list \<Rightarrow> outcome option \<Rightarrow> retry_run" where
  "retryLoop fn maxR baseDelayMs attempt sleeps lastError =
     (if attempt \<le> maxR then
        (case fn (nat attempt) of
           Resolved result \<Rightarrow>
             if (case result of None \<Rightarrow> False | Some r \<Rightarrow> \<not> fr_ok r \<and> defaultShouldRetry result)
                \<and> attempt < maxR
             then retryLoop fn maxR baseDelayMs (attempt + 1)
                    (sleeps @ [baseDelayMs * 2 ^ nat attempt]) (Some (Resolved result))
             else \<lparr> rr_final = Returned result, rr_sleeps = sleeps, rr_calls = nat attempt + 1 \<rparr>
         | Rejected err \<Rightarrow>
             if attempt < maxR
                \<and> defaultShouldRetry
                     (Some \<lparr> fr_ok = False, fr_status = None, fr_error = Some err, fr_data = None \<rparr>)
             then retryLoop fn maxR baseDelayMs (attempt + 1)
                    (sleeps @ [baseDelayMs * 2 ^ nat attempt]) (Some (Rejected err))
             else \<lparr> rr_final = Thrown err, rr_sleeps = sleeps, rr_calls = nat attempt + 1 \<rparr>)
      else \<lparr> rr_final = ReturnedLast lastError, rr_sleeps = sleeps, rr_calls = nat attempt \<rparr>)"
  by pat_completeness auto
termination
  by (relation "measure (\<lambda>(fn, maxR, baseDelayMs, attempt, sleeps, lastError). nat (maxR + 1 - attempt))")
    auto

declare retryLoop.simps [simp del]

record retry_options =
  ro_maxRetries :: "int option"
  ro_baseDelayMs :: "int option"

definition retryWithBackoff :: "(nat \<Rightarrow> outcome) \<Rightarrow> retry_options \<Rightarrow> retry_run" where
  "retryWithBackoff fn opts =
     retryLoop fn (case ro_maxRetries opts of None \<Rightarrow> 3 | Some m \<Rightarrow> m)
       (case ro_baseDelayMs opts of None \<Rightarrow> 1000 | Some b \<Rightarrow> b) 0 [] None"

text \<open>
  One HTTP exchange with the provider, as \<^verbatim>\<open>fetch\<close> and \<^verbatim>\<open>res.text()\<close> end: a response
  with its status and body, or a rejection.
\<close>

datatype exchange = HttpResponse int string | FetchThrows err_val

text \<open>The callback of \<^verbatim>\<open>openaiResponsesCreate\<close> (lines 659--686) on one exchange.\<close>

fun createAttempt :: "exchange \<Rightarrow> outcome" where
  "createAttempt (HttpResponse st body) =
     (if 200 \<le> st \<and> st \<le> 299
      then Resolved (Some \<lparr> fr_ok = True, fr_status = Some st, fr_error = None, fr_data = Some body \<rparr>)
      else Resolved (Some \<lparr> fr_ok = False, fr_status = Some st, fr_error = Some (ErrPayload body),
                             fr_data = None \<rparr>))"
| "createAttempt (FetchThrows err) = Rejected err"

text \<open>
  \<^verbatim>\<open>openaiResponsesCreate({ env, payload, maxRetries = 3 })\<close> (lines 657--689): \<open>None\<close> is
  a call that leaves \<^verbatim>\<open>maxRetries\<close> out.
\<close>

definition openaiResponsesCreate :: "(nat \<Rightarrow> exchange) \<Rightarrow> int option \<Rightarrow> retry_run" where
  "openaiResponsesCreate exchanges maxR =
     retryWithBackoff (\<lambda>k. createAttempt (exchanges k))
       \<lparr> ro_maxRetries = Some (case maxR of None \<Rightarrow> 3 | Some m \<Rightarrow> m), ro_baseDelayMs = None \<rparr>"

text \<open>
  The exchanges that are followed by another attempt while attempts remain: a response
  with status 429 or 5xx, and a rejection with an \<^verbatim>\<open>Error\<close> whose lowercased message
  contains \<^verbatim>\<open>network\<close>, \<^verbatim>\<open>timeout\<close> or \<^verbatim>\<open>econnreset\<close>.  \<open>surfaced\<close> is what the call
  ends with when an exchange is its last.
\<close>

definition mentions :: "err_val \<Rightarrow> string \<Rightarrow> bool" where
  "mentions e w = (case e of ErrInstance message \<Rightarrow> includesStr (toLowerCase message) w
                   | ErrPayload t \<Rightarrow> False)"

fun transientFailure :: "exchange \<Rightarrow> bool" where
  "transientFailure (HttpResponse st body) = (st = 429 \<or> (500 \<le> st \<and> st \<le> 599))"
| "transientFailure (FetchThrows err) =
     (mentions err ''network'' \<or> mentions err ''timeout'' \<or> mentions err ''econnreset'')"

fun surfaced :: "exchange \<Rightarrow> final" where
  "surfaced (HttpResponse st body) =
     (case createAttempt (HttpResponse st body) of Resolved r \<Rightarrow> Returned r | Rejected e \<Rightarrow> Thrown e)"
| "surfaced (FetchThrows err) = Thrown err"

section \<open>The evidence model\<close>

subsection \<open>Source quality\<close>

definition docSignals :: "string list" where
  "docSignals = [''standards'', ''ietf.org'', ''iso.org'', ''w3.org'', ''docs.'', ''developer.'',
                 ''api-reference'']"

definition researchSignals :: "string list" where
  "researchSignals = [''acm.org'', ''ieee.org'', ''nature.com'', ''science.org'', ''arxiv.org'']"

definition okSignals :: "string list" where
  "okSignals = [''wikipedia.org'', ''britannica.com'']"

definition lowSignals :: "string list" where
  "lowSignals = [''medium.com'', ''substack.com'', ''blogspot'', ''wordpress'']"

definition veryLow :: "string list" where
  "veryLow = [''x.com'', ''twitter.com'', ''reddit.com'', ''tiktok.com'']"

text \<open>
  \<^verbatim>\<open>domainQualityScore(url)\<close> (lines 590--618).  Its only caller passes the string that
  \<^verbatim>\<open>normalizeUrl\<close> returned, on which \<^verbatim>\<open>url || ""\<close> changes nothing.
\<close>

definition domainQualityScore :: "string \<Rightarrow> int" where
  "domainQualityScore url =
     (let u = toLowerCase url in
      if endsWith u ''.gov'' \<or> includesStr u ''.gov/'' then 5
      else if endsWith u ''.edu'' \<or> includesStr u ''.edu/'' then 5
      else if list_ex (includesStr u) docSignals then 4
      else if list_ex (includesStr u) researchSignals then 4
      else if list_ex (includesStr u) okSignals then 3
      else if list_ex (includesStr u) lowSignals then 2
      else if list_ex (includesStr u) veryLow then 1
      else 2)"

text \<open>The tiers of the lookup table, in the order of the specification, on a lowercased text.\<close>

definition tierGovEdu :: "string \<Rightarrow> bool" where
  "tierGovEdu u = (endsWith u ''.gov'' \<or> includesStr u ''.gov/''
                   \<or> endsWith u ''.edu'' \<or> includesStr u ''.edu/'')"

definition tierDocs :: "string \<Rightarrow> bool" where
  "tierDocs u = list_ex (includesStr u) docSignals"

definition tierResearch :: "string \<Rightarrow> bool" where
  "tierResearch u = list_ex (includesStr u) researchSignals"

definition tierReference :: "string \<Rightarrow> bool" where
  "tierReference u = list_ex (includesStr u) okSignals"

definition tierBlogs :: "string \<Rightarrow> bool" where
  "tierBlogs u = list_ex (includesStr u) lowSignals"

definition tierSocial :: "string \<Rightarrow> bool" where
  "tierSocial u = list_ex (includesStr u) veryLow"

definition matchesLookupTable :: "string \<Rightarrow> bool" where
  "matchesLookupTable u = (tierGovEdu u \<or> tierDocs u \<or> tierResearch u \<or> tierReference u
                           \<or> tierBlogs u \<or> tierSocial u)"

subsection \<open>Domain filter\<close>

text \<open>The callback of \<^verbatim>\<open>forceDomains.some\<close> (lines 642--647), on the lowercased host.\<close>

definition domainMatches :: "string \<Rightarrow> string \<Rightarrow> bool" where
  "domainMatches host d =
     (let dd = trim (toLowerCase d) in
      if dd = [] then False
      else if startsWith dd ''.'' then endsWith host dd
      else host = dd \<or> endsWith host (''.'' @ dd))"

text \<open>
  \<^verbatim>\<open>urlAllowedByForceDomains(url, forceDomains)\<close> (lines 637--651); \<open>None\<close> is the
  \<^verbatim>\<open>null\<close> that the configuration holds when the option is not an array.  The URL
  constructor belongs to the platform, not to the worker, so it is a parameter: \<open>hostOf url\<close>
  is \<^verbatim>\<open>new URL(url).hostname\<close>, and \<open>None\<close> when the constructor throws.
\<close>

definition urlAllowedByForceDomains ::
  "(string \<Rightarrow> string option) \<Rightarrow> string \<Rightarrow> string list option \<Rightarrow> bool" where
  "urlAllowedByForceDomains hostOf url fd =
     (case fd of
        None \<Rightarrow> True
      | Some ds \<Rightarrow>
          if ds = [] then True
          else
            (case hostOf url of
               None \<Rightarrow> False
             | Some hostname \<Rightarrow> list_ex (domainMatches (toLowerCase hostname)) ds))"

subsection \<open>Facts\<close>

text \<open>
  What the code can throw: a \<^verbatim>\<open>TypeError\<close> (a string method called on a value that is
  not a string) or the \<^verbatim>\<open>Error\<close> a pipeline stage raises when the provider fails.
\<close>

datatype error = TypeError string | StageError string

text \<open>
  A fact as the extraction stage returns it (any field may hold any value, a missing field
  is \<open>JUndefined\<close>), and a fact after normalization.
\<close>

record raw_fact =
  rf_fact :: jsval
  rf_url :: jsval
  rf_title :: jsval
  rf_date :: jsval
  rf_confidence :: jsval

record fact =
  f_fact :: jsval
  f_url :: string
  f_title :: jsval
  f_date :: jsval
  f_confidence :: jsnum
  f_source_quality :: int

text \<open>The comparisons \<^verbatim>\<open>a < b\<close> and \<^verbatim>\<open>a <= b\<close> of numbers; \<^verbatim>\<open>NaN\<close> compares false.\<close>

fun numLt :: "jsnum \<Rightarrow> jsnum \<Rightarrow> bool" where
  "numLt NaN b = False"
| "numLt a NaN = False"
| "numLt PosInf b = False"
| "numLt NegInf b = (b \<noteq> NegInf)"
| "numLt (Fin x) PosInf = True"
| "numLt (Fin x) NegInf = False"
| "numLt (Fin x) (Fin y) = (x < y)"

definition numLe :: "jsnum \<Rightarrow> jsnum \<Rightarrow> bool" where
  "numLe a b = (a \<noteq> NaN \<and> b \<noteq> NaN \<and> (a = b \<or> numLt a b))"

text \<open>\<^verbatim>\<open>normalizeUrl(url)\<close> (lines 633--635): \<^verbatim>\<open>(url || "").trim()\<close>.\<close>

definition normalizeUrl :: "jsval \<Rightarrow> error + string" where
  "normalizeUrl v =
     (case jsOr v (JStr []) of
        JStr s \<Rightarrow> Inr (trim s)
      | _ \<Rightarrow> Inl (TypeError ''trim is not a function''))"

text \<open>The callback of \<^verbatim>\<open>roundFacts.map\<close> (lines 1319--1334).\<close>

definition normalizeFact :: "raw_fact \<Rightarrow> error + fact" where
  "normalizeFact f =
     (case normalizeUrl (rf_url f) of
        Inl e \<Rightarrow> Inl e
      | Inr url \<Rightarrow>
          (let source_quality = domainQualityScore url;
               confidence = toNumber (jsOr (rf_confidence f) (JNum (Fin 1)))
           in Inr \<lparr> f_fact = rf_fact f,
                    f_url = url,
                    f_title = jsOr (rf_title f) JNull,
                    f_date = jsOr (rf_date f) JNull,
                    f_confidence =
                      (if source_quality \<le> 2 \<and> numLt (Fin 3) confidence then Fin 3
                       else confidence),
                    f_source_quality = source_quality \<rparr>))"

text \<open>A \<^verbatim>\<open>map\<close> whose callback may throw: the first throw ends it.\<close>

fun mapE :: "('a \<Rightarrow> error + 'b) \<Rightarrow> 'a list \<Rightarrow> error + 'b list" where
  "mapE g [] = Inr []"
| "mapE g (x # xs) =
     (case g x of
        Inl e \<Rightarrow> Inl e
      | Inr y \<Rightarrow> (case mapE g xs of Inl e \<Rightarrow> Inl e | Inr ys \<Rightarrow> Inr (y # ys)))"

text \<open>The first \<^verbatim>\<open>filter\<close> (line 1335).\<close>

definition acceptable :: "fact \<Rightarrow> bool" where
  "acceptable f = (truthy (f_fact f) \<and> f_url f \<noteq> [] \<and> numLe (Fin 2) (f_confidence f))"

text \<open>Normalize, score and filter the facts of one round (lines 1318--1336).\<close>

definition normalizeRound ::
  "(string \<Rightarrow> string option) \<Rightarrow> cfg \<Rightarrow> raw_fact list \<Rightarrow> error + fact list" where
  "normalizeRound hostOf c raw =
     (case mapE normalizeFact raw of
        Inl e \<Rightarrow> Inl e
      | Inr fs \<Rightarrow>
          Inr (filter (\<lambda>f. urlAllowedByForceDomains hostOf (f_url f) (forceDomains c))
                 (filter acceptable fs)))"

text \<open>\<^verbatim>\<open>dedupeFacts(facts)\<close> (lines 620--631), with the set \<^verbatim>\<open>seen\<close> as a list of keys.\<close>

definition factKey :: "fact \<Rightarrow> error + string" where
  "factKey f =
     (case jsOr (f_fact f) (JStr []) of
        JStr s \<Rightarrow> Inr (toLowerCase (trim s))
      | _ \<Rightarrow> Inl (TypeError ''trim is not a function''))"

fun dedupeLoop :: "string list \<Rightarrow> fact list \<Rightarrow> fact list \<Rightarrow> error + fact list" where
  "dedupeLoop seen out [] = Inr out"
| "dedupeLoop seen out (f # fs) =
     (case factKey f of
        Inl e \<Rightarrow> Inl e
      | Inr key \<Rightarrow>
          if key = [] then dedupeLoop seen out fs
          else if key \<in> set seen then dedupeLoop seen out fs
          else dedupeLoop (key # seen) (out @ [f]) fs)"

definition dedupeFacts :: "fact list \<Rightarrow> error + fact list" where
  "dedupeFacts facts = dedupeLoop [] [] facts"

section \<open>The research loop\<close>

text \<open>
  The plan as the loop reads it: \<open>queries\<close> is \<open>Some\<close> exactly when
  \<^verbatim>\<open>Array.isArray(plan.queries)\<close>, and the three fields of \<^verbatim>\<open>plan.stop_when || {}\<close> are
  \<open>JUndefined\<close> when missing.
\<close>

record stop_when =
  min_distinct_sources :: jsval
  min_facts :: jsval
  no_new_facts_rounds :: jsval

record plan =
  queries :: "jsval list option"
  stop_when :: stop_when

record limits =
  minSources :: jsnum
  minFacts :: jsnum
  noNewRoundsLimit :: jsnum

text \<open>Lines 1294--1299.\<close>

definition queriesOf :: "string \<Rightarrow> plan \<Rightarrow> jsval list" where
  "queriesOf question p = (case queries p of Some qs \<Rightarrow> take 10 qs | None \<Rightarrow> [JStr question])"

definition limitsOf :: "plan \<Rightarrow> limits" where
  "limitsOf p =
     \<lparr> minSources = toNumber (jsOr (min_distinct_sources (stop_when p)) (JNum (Fin 3))),
       minFacts = toNumber (jsOr (min_facts (stop_when p)) (JNum (Fin 8))),
       noNewRoundsLimit = toNumber (jsOr (no_new_facts_rounds (stop_when p)) (JNum (Fin 2))) \<rparr>"

text \<open>
  The two awaited stages of a round, as the world answers them: each is given the round
  and what the code passes it, and returns or throws.
\<close>

record search_result =
  response_id :: "string option"
  snippetsText :: string

record extracted =
  facts :: "raw_fact list"
  conflicts :: "jsval list"

record stages =
  webSearch :: "int \<Rightarrow> jsval \<Rightarrow> error + search_result"
  extractFacts :: "int \<Rightarrow> string \<Rightarrow> error + extracted"

datatype stop_reason = MaxFactsReached | CoverageReached | Stagnation

datatype trace_entry =
    SearchEntry int jsval "string option" nat
  | ExtractEntry int nat nat int nat nat
  | StopEntry stop_reason

text \<open>
  The variables of the loop.  \<open>seenUrls\<close> is the \<^verbatim>\<open>Set\<close>, in insertion order.  The fields
  of an \<open>ExtractEntry\<close> are the round, \<^verbatim>\<open>rawFactCount\<close>, \<^verbatim>\<open>filteredFactCount\<close>,
  \<^verbatim>\<open>newFacts\<close>, \<^verbatim>\<open>totalFacts\<close> and \<^verbatim>\<open>distinctSources\<close>.
\<close>

record loop_state =
  allFacts :: "fact list"
  allConflicts :: "jsval list"
  seenUrls :: "string list"
  noNewRounds :: int
  trace :: "trace_entry list"

definition initialState :: loop_state where
  "initialState = \<lparr> allFacts = [], allConflicts = [], seenUrls = [], noNewRounds = 0, trace = [] \<rparr>"

text \<open>The remainder \<^verbatim>\<open>a % b\<close> for a positive \<open>b\<close>: it has the sign of \<open>a\<close>.\<close>

definition jsRem :: "int \<Rightarrow> int \<Rightarrow> int" where
  "jsRem a b = (if 0 \<le> a then a mod b else - ((- a) mod b))"

text \<open>Line 1307; an index outside the array reads \<^verbatim>\<open>undefined\<close>.\<close>

definition queryAt :: "jsval list \<Rightarrow> int \<Rightarrow> jsval" where
  "queryAt qs rnd =
     (let i = jsRem (rnd - 1) (max 1 (int (length qs))) in
      if 0 \<le> i \<and> i < int (length qs) then qs ! nat i else JUndefined)"

definition addUrl :: "fact \<Rightarrow> string list \<Rightarrow> string list" where
  "addUrl f seen = (if f_url f \<noteq> [] \<and> f_url f \<notin> set seen then seen @ [f_url f] else seen)"

text \<open>
  Lines 1307--1359: search, extract, normalize, merge, record.  A throw keeps the state it
  happened in, so that what the run did until then stays visible.
\<close>

definition gatherRound ::
  "(string \<Rightarrow> string option) \<Rightarrow> cfg \<Rightarrow> jsval list \<Rightarrow> stages \<Rightarrow> int \<Rightarrow> loop_state \<Rightarrow> (error \<times> loop_state) + loop_state" where
  "gatherRound hostOf c qs w rnd st =
     (let q = queryAt qs rnd in
      case webSearch w rnd q of
        Inl e \<Rightarrow> Inl (e, st)
      | Inr search \<Rightarrow>
          (let st1 = st\<lparr> trace := trace st @
                       [SearchEntry rnd q (response_id search) (length (snippetsText search))] \<rparr>
           in case extractFacts w rnd (snippetsText search) of
                Inl e \<Rightarrow> Inl (e, st1)
              | Inr ex \<Rightarrow>
                  (case normalizeRound hostOf c (facts ex) of
                     Inl e \<Rightarrow> Inl (e, st1)
                   | Inr roundFacts \<Rightarrow>
                       (case dedupeFacts (allFacts st1 @ roundFacts) of
                          Inl e \<Rightarrow> Inl (e, st1)
                        | Inr merged \<Rightarrow>
                            (let newFacts = int (length merged) - int (length (allFacts st1));
                                 seen = fold addUrl merged (seenUrls st1)
                             in Inr (st1\<lparr> allFacts := merged,
                                      allConflicts :=
                                        (if conflicts ex \<noteq> [] then allConflicts st1 @ conflicts ex
                                         else allConflicts st1),
                                      seenUrls := seen,
                                      noNewRounds :=
                                        (if newFacts < minNewFactsPerRound c
                                         then noNewRounds st1 + 1 else 0),
                                      trace := trace st1 @
                                        [ExtractEntry rnd (length (facts ex)) (length roundFacts)
                                           newFacts (length merged) (length seen)] \<rparr>))))))"

text \<open>Lines 1361--1374: the stop conditions, in their order; \<open>Some\<close> is a \<^verbatim>\<open>break\<close>.\<close>

definition stopCheck :: "cfg \<Rightarrow> limits \<Rightarrow> loop_state \<Rightarrow> stop_reason option" where
  "stopCheck c lims st =
     (if maxFacts c \<le> int (length (allFacts st)) then Some MaxFactsReached
      else if numLe (minSources lims) (Fin (real (length (seenUrls st))))
              \<and> numLe (minFacts lims) (Fin (real (length (allFacts st))))
      then Some CoverageReached
      else if numLe (noNewRoundsLimit lims) (Fin (real_of_int (noNewRounds st)))
      then Some Stagnation
      else None)"

text \<open>The \<^verbatim>\<open>for\<close> loop (lines 1306--1375), from round \<open>rnd\<close> in state \<open>st\<close>.\<close>

function researchLoop ::
  "(string \<Rightarrow> string option) \<Rightarrow> cfg \<Rightarrow> jsval list \<Rightarrow> limits \<Rightarrow> stages \<Rightarrow> int \<Rightarrow> loop_state \<Rightarrow> (error \<times> loop_state) + loop_state"
  where
  "researchLoop hostOf c qs lims w rnd st =
     (if rnd \<le> maxSearchRounds c then
        (case gatherRound hostOf c qs w rnd st of
           Inl thrown \<Rightarrow> Inl thrown
         | Inr st' \<Rightarrow>
             (case stopCheck c lims st' of
                Some r \<Rightarrow> Inr (st'\<lparr> trace := trace st' @ [StopEntry r] \<rparr>)
              | None \<Rightarrow> researchLoop hostOf c qs lims w (rnd + 1) st'))
      else Inr st)"
  by pat_completeness auto
termination
  by (relation "measure (\<lambda>(hostOf, c, qs, lims, w, rnd, st). nat (maxSearchRounds c + 1 - rnd))")
    auto

declare researchLoop.simps [simp del]

text \<open>Lines 1291--1375 of \<^verbatim>\<open>deepResearchAgent\<close>, given the plan the planner returned.\<close>

definition researchRounds ::
  "(string \<Rightarrow> string option) \<Rightarrow> string \<Rightarrow> cfg \<Rightarrow> plan \<Rightarrow> stages \<Rightarrow> (error \<times> loop_state) + loop_state" where
  "researchRounds hostOf question c p w =
     researchLoop hostOf c (queriesOf question p) (limitsOf p) w 1 initialState"

text \<open>What the trace of a run tells: the rounds searched, the new-fact counts, the stops.\<close>

fun searchesOf :: "trace_entry list \<Rightarrow> (int \<times> jsval) list" where
  "searchesOf [] = []"
| "searchesOf (SearchEntry r q i n # es) = (r, q) # searchesOf es"
| "searchesOf (e # es) = searchesOf es"



fun finalState :: "(error \<times> loop_state) + loop_state \<Rightarrow> loop_state" where
  "finalState (Inl (e, st)) = st"
| "finalState (Inr st) = st"

subsection \<open>The final answer\<close>

text \<open>
  The validation object: \<^verbatim>\<open>ok\<close> and \<^verbatim>\<open>revised_answer\<close> hold whatever the validator
  wrote.  \<open>validateResult parsed draft\<close> is line 973: \<open>parsed\<close> is \<open>None\<close> when
  \<^verbatim>\<open>safeJsonParse\<close> gave a falsy value.  \<open>selectAnswer\<close> is line 1386.
\<close>

record validation =
  v_ok :: jsval
  v_issues :: "string list"
  v_revised_answer :: jsval

definition validateResult :: "validation option \<Rightarrow> string \<Rightarrow> validation" where
  "validateResult parsed draft =
     (case parsed of
        Some v \<Rightarrow> v
      | None \<Rightarrow> \<lparr> v_ok = JBool False, v_issues = [''Validator JSON parse failed''],
                  v_revised_answer = JStr draft \<rparr>)"

definition selectAnswer :: "validation \<Rightarrow> string \<Rightarrow> jsval" where
  "selectAnswer v draft =
     (if truthy (v_ok v) then JStr draft else jsOr (v_revised_answer v) (JStr draft))"

section \<open>Background jobs\<close>

subsection \<open>Responses and their text\<close>

text \<open>
  The part of a response object that the job code reads.  \<open>rd_output_text\<close> is \<open>Some\<close>
  when \<^verbatim>\<open>output_text\<close> is a string; \<open>rd_output\<close> lists the \<^verbatim>\<open>content\<close> of each item of
  the \<^verbatim>\<open>output\<close> array (empty when \<^verbatim>\<open>output\<close> is no array): an array of parts, each with
  its \<^verbatim>\<open>type\<close> and \<^verbatim>\<open>text\<close> (empty when missing), a string, or something else.  The
  message and the code of \<^verbatim>\<open>error\<close> are empty when missing.
\<close>

datatype content_part = ContentPart string string

datatype item_content = ContentArray "content_part list" | ContentString string | ContentOther

record response_data =
  rd_id :: string
  rd_status :: string
  rd_output_text :: "string option"
  rd_output :: "item_content list"
  rd_error_message :: string
  rd_error_code :: string

fun joinLines :: "string list \<Rightarrow> string" where
  "joinLines [] = []"
| "joinLines [x] = x"
| "joinLines (x # y # ys) = x @ [CHR 0x0A] @ joinLines (y # ys)"

fun partTexts :: "content_part list \<Rightarrow> string list" where
  "partTexts [] = []"
| "partTexts (ContentPart ty tx # cs) =
     (if (ty = ''output_text'' \<or> ty = ''text'') \<and> tx \<noteq> [] then tx # partTexts cs
      else partTexts cs)"

fun chunksOf :: "item_content list \<Rightarrow> string list" where
  "chunksOf [] = []"
| "chunksOf (ContentArray cs # items) = partTexts cs @ chunksOf items"
| "chunksOf (ContentString s # items) = s # chunksOf items"
| "chunksOf (ContentOther # items) = chunksOf items"

text \<open>\<^verbatim>\<open>extractText(respData)\<close> (lines 697--719), on a response object.\<close>

definition extractText :: "response_data \<Rightarrow> string" where
  "extractText respData =
     (case rd_output_text respData of
        Some t \<Rightarrow> if t \<noteq> [] then t else trim (joinLines (chunksOf (rd_output respData)))
      | None \<Rightarrow> trim (joinLines (chunksOf (rd_output respData))))"

subsection \<open>The provider and the clock\<close>

text \<open>
  One status fetch of a job ends in one of four ways: \<^verbatim>\<open>fetch\<close> rejects; the response is
  ok and its body parses; the response is ok and \<^verbatim>\<open>json()\<close> rejects; or the response is
  not ok, with its status, its \<^verbatim>\<open>retry-after\<close> header, the \<^verbatim>\<open>error.message\<close> of its body
  (empty when there is none) and the body as \<^verbatim>\<open>JSON.stringify\<close> prints it.  The \<open>k\<close>-th
  fetch of a call has the outcome \<open>polls k\<close>.  Time is the clock in milliseconds: a timer
  fires exactly on time and a fetch takes none.  Timestamps are left out of the results.
\<close>

record http_error =
  he_status :: int
  he_retry_after :: "string option"
  he_message :: string
  he_body :: string

datatype poll_response =
    FetchRejects string
  | PollOk response_data
  | OkBadJson string
  | NotOk http_error

definition maxWait :: int where
  "maxWait = 30 * 60 * 1000"

definition pollInterval :: int where
  "pollInterval = 5000"

definition maxConsecutiveErrors :: int where
  "maxConsecutiveErrors = 3"

text \<open>\<^verbatim>\<open>parseInt(s, 10)\<close>: \<open>None\<close> is \<^verbatim>\<open>NaN\<close>.\<close>

definition parseInt10 :: "string \<Rightarrow> int option" where
  "parseInt10 s =
     (let t = dropWhile isWs s;
          neg = startsWith t ''-'';
          r = (if startsWith t ''-'' \<or> startsWith t ''+'' then tl t else t);
          ds = takeWhile isDigit r
      in if ds = [] then None
         else map_option (\<lambda>n. if neg then - int n else int n) (digitsVal 10 ds 0))"

text \<open>
  The time \<^verbatim>\<open>setTimeout(r, retryAfter * 1000)\<close> waits: none for \<^verbatim>\<open>NaN\<close> or a negative
  delay.  Delays beyond the range of a 32-bit timer are not represented.
\<close>

definition timerDelay :: "int option \<Rightarrow> int" where
  "timerDelay retryAfter = (case retryAfter of None \<Rightarrow> 0 | Some r \<Rightarrow> max 0 (r * 1000))"

text \<open>\<^verbatim>\<open>Math.round(ms / 1000)\<close> for the elapsed time, which is not negative.\<close>

definition elapsedSeconds :: "int \<Rightarrow> int" where
  "elapsedSeconds ms = (ms + 500) div 1000"

definition digitChar :: "nat \<Rightarrow> char" where
  "digitChar d = ''0123456789'' ! d"

function showNat :: "nat \<Rightarrow> string" where
  "showNat n = (if n < 10 then [digitChar n] else showNat (n div 10) @ [digitChar (n mod 10)])"
  by pat_completeness auto
termination
  by (relation "measure id") auto

declare showNat.simps [simp del]

definition showInt :: "int \<Rightarrow> string" where
  "showInt i = (if i < 0 then ''-'' @ showNat (nat (- i)) else showNat (nat i))"

subsection \<open>Results and traces\<close>

datatype job_trace =
    TrRequest string bool
  | TrInitialResponse string string
  | TrBackground string
  | TrResume string string
  | TrPolling string
  | TrRateLimit "int option" int
  | TrPoll string int
  | TrPollError string int
  | TrComplete nat "string option"
  | TrFailed string string

text \<open>The object a job operation returns; a field that the object lacks is \<open>None\<close>.\<close>

record job_result =
  jr_ok :: bool
  jr_answer :: "string option"
  jr_error :: "string option"
  jr_error_code :: "string option"
  jr_response_id :: "string option"
  jr_status :: "string option"
  jr_status_code :: "int option"
  jr_mode :: "string option"
  jr_raw_response :: "response_data option"
  jr_trace :: "job_trace list"

definition emptyResult :: job_result where
  "emptyResult = \<lparr> jr_ok = False, jr_answer = None, jr_error = None, jr_error_code = None,
                     jr_response_id = None, jr_status = None, jr_status_code = None,
                     jr_mode = None, jr_raw_response = None, jr_trace = [] \<rparr>"

definition completedResult :: "string \<Rightarrow> response_data \<Rightarrow> job_trace list \<Rightarrow> job_result" where
  "completedResult responseId result tr =
     emptyResult\<lparr> jr_ok := True, jr_answer := Some (extractText result),
                  jr_mode := Some ''deep_research'', jr_response_id := Some responseId,
                  jr_raw_response := Some result, jr_trace := tr \<rparr>"

definition failedResult :: "string \<Rightarrow> response_data \<Rightarrow> job_trace list \<Rightarrow> job_result" where
  "failedResult responseId result tr =
     emptyResult\<lparr> jr_error := Some (if rd_error_message result \<noteq> [] then rd_error_message result
                                     else ''Deep research failed''),
                  jr_error_code := Some (if rd_error_code result \<noteq> [] then rd_error_code result
                                          else ''unknown''),
                  jr_mode := Some ''deep_research'', jr_response_id := Some responseId,
                  jr_raw_response := Some result, jr_trace := tr \<rparr>"

text \<open>The variables of a poll loop, the clock and the number of fetches made so far.\<close>

record poll_state =
  ps_result :: response_data
  ps_errors :: int
  ps_trace :: "job_trace list"
  ps_now :: int
  ps_fetches :: nat

definition pending :: "response_data \<Rightarrow> bool" where
  "pending result = (rd_status result = ''in_progress'' \<or> rd_status result = ''queued'')"

text \<open>How an operation ends: it returns an object or throws an error with a message.\<close>

record job_run =
  run_outcome :: "string + job_result"
  run_fetches :: nat
  run_clock :: int

subsection \<open>Resuming a job\<close>

text \<open>The \<^verbatim>\<open>catch\<close> block of the resume loop (lines 1212--1224).\<close>

definition resumeCatch :: "string \<Rightarrow> string \<Rightarrow> poll_state \<Rightarrow> (job_result \<times> poll_state) + poll_state" where
  "resumeCatch responseId message s =
     (let s' = s\<lparr> ps_errors := ps_errors s + 1 \<rparr> in
      if maxConsecutiveErrors \<le> ps_errors s'
      then Inl (emptyResult\<lparr> jr_error := Some message, jr_response_id := Some responseId,
                            jr_status := Some (rd_status (ps_result s)), jr_trace := ps_trace s \<rparr>, s')
      else Inr (s'\<lparr> ps_trace := ps_trace s @ [TrPollError message (ps_errors s')] \<rparr>))"

text \<open>
  The body of the resume loop after its sleep (lines 1178--1224), on the outcome of the
  fetch: \<open>Inl\<close> returns from the operation, \<open>Inr\<close> goes on with the loop.
\<close>

definition resumeStep ::
  "string \<Rightarrow> int \<Rightarrow> poll_state \<Rightarrow> poll_response \<Rightarrow> (job_result \<times> poll_state) + poll_state" where
  "resumeStep responseId startPoll s resp =
     (case resp of
        FetchRejects message \<Rightarrow> resumeCatch responseId message s
      | OkBadJson message \<Rightarrow> resumeCatch responseId message (s\<lparr> ps_errors := 0 \<rparr>)
      | NotOk e \<Rightarrow>
          if he_status e = 429 then
            (let retryAfter =
                   parseInt10 (case he_retry_after e of
                                 None \<Rightarrow> ''10''
                               | Some h \<Rightarrow> if h = [] then ''10'' else h);
                 s' = s\<lparr> ps_errors := ps_errors s + 1,
                         ps_trace := ps_trace s @ [TrRateLimit retryAfter (ps_errors s + 1)] \<rparr>
             in if maxConsecutiveErrors \<le> ps_errors s'
                then Inl (emptyResult\<lparr>
                            jr_error := Some (''Rate limit exceeded after 3 retries. Use GET /research/''
                                              @ responseId @ '' to resume later.''),
                            jr_response_id := Some responseId,
                            jr_status := Some (rd_status (ps_result s)),
                            jr_trace := ps_trace s' \<rparr>, s')
                else Inr (s'\<lparr> ps_now := ps_now s' + timerDelay retryAfter \<rparr>))
          else resumeCatch responseId (''Polling error: '' @ he_body e) s
      | PollOk result \<Rightarrow>
          Inr (s\<lparr> ps_errors := 0, ps_result := result,
                  ps_trace := ps_trace s @
                    [TrPoll (rd_status result) (elapsedSeconds (ps_now s - startPoll))] \<rparr>))"

lemma resumeCatch_clock:
  "resumeCatch responseId message s = Inr s' \<Longrightarrow> ps_now s' = ps_now s"
  by (auto simp: resumeCatch_def Let_def split: if_splits)

lemma resumeStep_clock:
  "resumeStep responseId startPoll s resp = Inr s' \<Longrightarrow> ps_now s \<le> ps_now s'"
  by (cases resp)
    (auto simp: resumeStep_def Let_def timerDelay_def dest!: resumeCatch_clock
      split: if_splits option.splits)

text \<open>The \<^verbatim>\<open>while\<close> loop of \<^verbatim>\<open>handleResumeResponse\<close> (lines 1175--1225).\<close>

function resumePoll ::
  "(nat \<Rightarrow> poll_response) \<Rightarrow> string \<Rightarrow> int \<Rightarrow> poll_state \<Rightarrow> (job_result \<times> poll_state) + poll_state"
  where
  "resumePoll polls responseId startPoll s =
     (if pending (ps_result s) \<and> ps_now s - startPoll < maxWait then
        (case resumeStep responseId startPoll
                (s\<lparr> ps_now := ps_now s + pollInterval, ps_fetches := ps_fetches s + 1 \<rparr>)
                (polls (ps_fetches s)) of
           Inl returned \<Rightarrow> Inl returned
         | Inr s' \<Rightarrow> resumePoll polls responseId startPoll s')
      else Inr s)"
  by pat_completeness auto
termination
proof (relation "measure (\<lambda>(polls, responseId, startPoll, s). nat (maxWait - (ps_now s - startPoll)))")
  show "wf (measure (\<lambda>(polls, responseId, startPoll, s). nat (maxWait - (ps_now s - startPoll))))"
    by simp
next
  fix polls :: "nat \<Rightarrow> poll_response" and responseId :: string and startPoll :: int
    and s s' :: poll_state
  assume c: "pending (ps_result s) \<and> ps_now s - startPoll < maxWait"
    and st: "resumeStep responseId startPoll
               (s\<lparr> ps_now := ps_now s + pollInterval, ps_fetches := ps_fetches s + 1 \<rparr>)
               (polls (ps_fetches s)) = Inr s'"
  from resumeStep_clock [OF st] have "ps_now s + pollInterval \<le> ps_now s'" by simp
  with c show "((polls, responseId, startPoll, s'), (polls, responseId, startPoll, s))
        \<in> measure (\<lambda>(polls, responseId, startPoll, s). nat (maxWait - (ps_now s - startPoll)))"
    by (simp add: pollInterval_def)
qed

declare resumePoll.simps [simp del]

text \<open>
  \<^verbatim>\<open>handleResumeResponse({ responseId, env })\<close> (lines 1100--1280), called at time
  \<open>now\<close>.
\<close>

definition handleResumeResponse :: "(nat \<Rightarrow> poll_response) \<Rightarrow> string \<Rightarrow> int \<Rightarrow> job_run" where
  "handleResumeResponse polls responseId now =
     (case polls 0 of
        FetchRejects message \<Rightarrow>
          \<lparr> run_outcome = Inl message, run_fetches = 1, run_clock = now \<rparr>
      | OkBadJson message \<Rightarrow>
          \<lparr> run_outcome = Inl message, run_fetches = 1, run_clock = now \<rparr>
      | NotOk e \<Rightarrow>
          \<lparr> run_outcome =
              Inr (emptyResult\<lparr>
                     jr_error := Some (if he_message e \<noteq> [] then he_message e
                                       else ''Failed to fetch response: '' @ showInt (he_status e)),
                     jr_response_id := Some responseId,
                     jr_status_code := Some (he_status e) \<rparr>),
            run_fetches = 1, run_clock = now \<rparr>
      | PollOk result \<Rightarrow>
          (let tr = [TrResume (rd_status result) responseId] in
           if rd_status result = ''completed'' then
             \<lparr> run_outcome = Inr (completedResult responseId result tr),
               run_fetches = 1, run_clock = now \<rparr>
           else if rd_status result = ''failed'' then
             \<lparr> run_outcome = Inr (failedResult responseId result tr),
               run_fetches = 1, run_clock = now \<rparr>
           else if rd_status result = ''cancelled'' then
             \<lparr> run_outcome =
                 Inr (emptyResult\<lparr> jr_error := Some ''Research was cancelled'',
                                    jr_mode := Some ''deep_research'',
                                    jr_response_id := Some responseId,
                                    jr_raw_response := Some result, jr_trace := tr \<rparr>),
               run_fetches = 1, run_clock = now \<rparr>
           else
             (case (if pending result
                    then resumePoll polls responseId now
                           \<lparr> ps_result = result, ps_errors = 0,
                             ps_trace = tr @ [TrPolling (rd_status result)],
                             ps_now = now, ps_fetches = 1 \<rparr>
                    else Inr \<lparr> ps_result = result, ps_errors = 0, ps_trace = tr,
                               ps_now = now, ps_fetches = 1 \<rparr>) of
                Inl (returned, s) \<Rightarrow>
                  \<lparr> run_outcome = Inr returned, run_fetches = ps_fetches s, run_clock = ps_now s \<rparr>
              | Inr s \<Rightarrow>
                  \<lparr> run_outcome =
                      Inr (if pending (ps_result s) then
                             emptyResult\<lparr>
                               jr_error := Some (''Polling timed out after 30 minutes. Use GET /research/''
                                                 @ responseId @ '' to resume later.''),
                               jr_response_id := Some responseId,
                               jr_status := Some (rd_status (ps_result s)),
                               jr_trace := ps_trace s \<rparr>
                           else if rd_status (ps_result s) = ''completed'' then
                             completedResult responseId (ps_result s)
                               (ps_trace s @
                                  [TrComplete (length (extractText (ps_result s))) None])
                           else if rd_status (ps_result s) = ''failed'' then
                             failedResult responseId (ps_result s)
                               (ps_trace s @
                                  [TrFailed (rd_error_message (ps_result s))
                                     (rd_error_code (ps_result s))])
                           else
                             emptyResult\<lparr>
                               jr_error := Some (''Unknown status: '' @ rd_status (ps_result s)),
                               jr_response_id := Some responseId,
                               jr_status := Some (rd_status (ps_result s)),
                               jr_raw_response := Some (ps_result s),
                               jr_trace := ps_trace s \<rparr>),
                    run_fetches = ps_fetches s, run_clock = ps_now s \<rparr>)))"

text \<open>
  Two calls in succession: the second starts when the first has ended and sees the
  provider's later answers.
\<close>

definition resumeAgain :: "(nat \<Rightarrow> poll_response) \<Rightarrow> string \<Rightarrow> int \<Rightarrow> job_run" where
  "resumeAgain polls responseId now =
     (let first = handleResumeResponse polls responseId now in
      handleResumeResponse (\<lambda>k. polls (run_fetches first + k)) responseId (run_clock first))"

subsection \<open>Submitting a job and waiting for it\<close>

text \<open>The \<^verbatim>\<open>catch\<close> block of the loop of \<^verbatim>\<open>runDeepResearchModel\<close> (lines 1044--1049).\<close>

definition runCatch :: "string \<Rightarrow> poll_state \<Rightarrow> (string \<times> poll_state) + poll_state" where
  "runCatch message s =
     (if includesStr message ''Rate limit'' then Inl (message, s)
      else
        (let s' = s\<lparr> ps_errors := ps_errors s + 1 \<rparr> in
         if maxConsecutiveErrors \<le> ps_errors s' then Inl (message, s')
         else Inr (s'\<lparr> ps_trace := ps_trace s @ [TrPollError message (ps_errors s')] \<rparr>)))"

text \<open>
  The body of that loop after its sleep (lines 1016--1049): \<open>Inl\<close> is the message of the
  error thrown out of the loop.
\<close>

definition runStep ::
  "int \<Rightarrow> poll_state \<Rightarrow> poll_response \<Rightarrow> (string \<times> poll_state) + poll_state" where
  "runStep startPoll s resp =
     (case resp of
        FetchRejects message \<Rightarrow> runCatch message s
      | OkBadJson message \<Rightarrow> runCatch message (s\<lparr> ps_errors := 0 \<rparr>)
      | NotOk e \<Rightarrow>
          if he_status e = 429 then
            (let retryAfter =
                   parseInt10 (case he_retry_after e of
                                 None \<Rightarrow> ''5''
                               | Some h \<Rightarrow> if h = [] then ''5'' else h);
                 s' = s\<lparr> ps_errors := ps_errors s + 1,
                         ps_trace := ps_trace s @ [TrRateLimit retryAfter (ps_errors s + 1)] \<rparr>
             in if maxConsecutiveErrors \<le> ps_errors s'
                then runCatch ''Rate limit exceeded after 3 retries'' s'
                else Inr (s'\<lparr> ps_now := ps_now s' + timerDelay retryAfter \<rparr>))
          else runCatch (''Polling error: '' @ he_body e) s
      | PollOk result \<Rightarrow>
          Inr (s\<lparr> ps_errors := 0, ps_result := result,
                  ps_trace := ps_trace s @
                    [TrPoll (rd_status result) (elapsedSeconds (ps_now s - startPoll))] \<rparr>))"

lemma runCatch_clock: "runCatch message s = Inr s' \<Longrightarrow> ps_now s' = ps_now s"
  by (auto simp: runCatch_def Let_def split: if_splits)

lemma runStep_clock: "runStep startPoll s resp = Inr s' \<Longrightarrow> ps_now s \<le> ps_now s'"
  by (cases resp)
    (auto simp: runStep_def Let_def timerDelay_def dest!: runCatch_clock
      split: if_splits option.splits)

function runPoll ::
  "(nat \<Rightarrow> poll_response) \<Rightarrow> int \<Rightarrow> poll_state \<Rightarrow> (string \<times> poll_state) + poll_state" where
  "runPoll polls startPoll s =
     (if pending (ps_result s) \<and> ps_now s - startPoll < maxWait then
        (case runStep startPoll
                (s\<lparr> ps_now := ps_now s + pollInterval, ps_fetches := ps_fetches s + 1 \<rparr>)
                (polls (ps_fetches s)) of
           Inl thrown \<Rightarrow> Inl thrown
         | Inr s' \<Rightarrow> runPoll polls startPoll s')
      else Inr s)"
  by pat_completeness auto
termination
proof (relation "measure (\<lambda>(polls, startPoll, s). nat (maxWait - (ps_now s - startPoll)))")
  show "wf (measure (\<lambda>(polls, startPoll, s). nat (maxWait - (ps_now s - startPoll))))"
    by simp
next
  fix polls :: "nat \<Rightarrow> poll_response" and startPoll :: int and s s' :: poll_state
  assume c: "pending (ps_result s) \<and> ps_now s - startPoll < maxWait"
    and st: "runStep startPoll
               (s\<lparr> ps_now := ps_now s + pollInterval, ps_fetches := ps_fetches s + 1 \<rparr>)
               (polls (ps_fetches s)) = Inr s'"
  from runStep_clock [OF st] have "ps_now s + pollInterval \<le> ps_now s'" by simp
  with c show "((polls, startPoll, s'), (polls, startPoll, s))
        \<in> measure (\<lambda>(polls, startPoll, s). nat (maxWait - (ps_now s - startPoll)))"
    by (simp add: pollInterval_def)
qed

declare runPoll.simps [simp del]

text \<open>
  \<^verbatim>\<open>runDeepResearchModel({ question, cfg, env })\<close> (lines 976--1094), called at time
  \<open>now\<close> for the model \<open>model\<close> with \<^verbatim>\<open>cfg.background\<close> = \<open>background\<close>.  \<open>created\<close> is how
  the create call ended: \<open>Inl\<close> with the text of the error when it did not give an ok
  result, \<open>Inr\<close> with the response object.  The polls of the loop are counted from 0.
\<close>

definition finishRun :: "response_data \<Rightarrow> job_trace list \<Rightarrow> job_result" where
  "finishRun result tr =
     (if rd_status result = ''failed''
      then failedResult (rd_id result) result
             (tr @ [TrFailed (rd_error_message result) (rd_error_code result)])
      else completedResult (rd_id result) result
             (tr @ [TrComplete (length (extractText result)) (Some (rd_status result))]))"

definition runDeepResearchModel ::
  "string \<Rightarrow> bool \<Rightarrow> string + response_data \<Rightarrow> (nat \<Rightarrow> poll_response) \<Rightarrow> int \<Rightarrow> job_run" where
  "runDeepResearchModel model background created polls now =
     (case created of
        Inl errorText \<Rightarrow>
          \<lparr> run_outcome = Inl (''OpenAI deep research error: '' @ errorText),
            run_fetches = 0, run_clock = now \<rparr>
      | Inr result \<Rightarrow>
          (let tr = [TrRequest model background,
                     TrInitialResponse (rd_status result) (rd_id result)] in
           if background \<and> pending result then
             (case runPoll polls now
                     \<lparr> ps_result = result, ps_errors = 0,
                       ps_trace = tr @ [TrBackground (rd_id result)],
                       ps_now = now, ps_fetches = 0 \<rparr> of
                Inl (message, s) \<Rightarrow>
                  \<lparr> run_outcome = Inl message, run_fetches = ps_fetches s, run_clock = ps_now s \<rparr>
              | Inr s \<Rightarrow>
                  \<lparr> run_outcome =
                      (if pending (ps_result s)
                       then Inl ''Deep research timed out after 30 minutes''
                       else Inr (finishRun (ps_result s) (ps_trace s))),
                    run_fetches = ps_fetches s, run_clock = ps_now s \<rparr>)
           else \<lparr> run_outcome = Inr (finishRun result tr), run_fetches = 0, run_clock = now \<rparr>))"

section \<open>Sample inputs\<close>

text \<open>
  The host names that the URL constructor reports for the URLs of the examples, as a table.
  A string outside the table has none here; of the strings used below that is
  \<^verbatim>\<open>epa.gov/report\<close>, on which the constructor throws for want of a scheme.
\<close>

definition sampleHostOf :: "string \<Rightarrow> string option" where
  "sampleHostOf =
     map_of [(''https://epa.gov/report'', ''epa.gov''),
             (''https://epa.com/report'', ''epa.com''),
             (''https://www.epa.gov/report'', ''www.epa.gov''),
             (''https://example.com/docs.html'', ''example.com''),
             (''https://blog.example/a'', ''blog.example''),
             (''https://other.example/a'', ''other.example''),
             (''https://nist.gov/b'', ''nist.gov''),
             (''https://en.wikipedia.org/wiki/G'', ''en.wikipedia.org''),
             (''https://x.com/d'', ''x.com'')]"

text \<open>
  A fact with a given text and URL and confidence 4, and a configuration of defaults that
  restricts sources to \<^verbatim>\<open>.gov\<close>.
\<close>

definition sampleFact :: "string \<Rightarrow> string \<Rightarrow> raw_fact" where
  "sampleFact t u = \<lparr> rf_fact = JStr t, rf_url = JStr u, rf_title = JUndefined,
                      rf_date = JNull, rf_confidence = JNum (Fin 4) \<rparr>"

definition govOnly :: cfg where
  "govOnly = mkCfg \<lparr> o_maxSearchRounds = JUndefined, o_maxFacts = JUndefined,
                     o_minNewFactsPerRound = JUndefined, o_forceDomains = Some [''.gov''],
                     o_maxRetries = JUndefined \<rparr>"

text \<open>
  A run of the loop: at most six rounds, one new fact needed per round, three queries, the
  stagnation limit 2.  Round 1 extracts one fact, round 2 the same fact in another spelling,
  round 3 three new facts, later rounds none.
\<close>

definition sampleOptions :: options where
  "sampleOptions = \<lparr> o_maxSearchRounds = JNum (Fin 6), o_maxFacts = JUndefined,
                       o_minNewFactsPerRound = JNum (Fin 1), o_forceDomains = None,
                       o_maxRetries = JUndefined \<rparr>"

definition samplePlan :: plan where
  "samplePlan = \<lparr> queries = Some [JStr ''q1'', JStr ''q2'', JStr ''q3''],
                    stop_when = \<lparr> min_distinct_sources = JUndefined, min_facts = JUndefined,
                                  no_new_facts_rounds = JNum (Fin 2) \<rparr> \<rparr>"

definition sampleStages :: stages where
  "sampleStages =
     \<lparr> webSearch = (\<lambda>r q. Inr \<lparr> response_id = Some ''resp_1'', snippetsText = ''found'' \<rparr>),
       extractFacts = (\<lambda>r s. Inr \<lparr> facts =
           (if r = 1 then [sampleFact ''Alpha'' ''https://blog.example/a'']
            else if r = 2 then [sampleFact '' alpha '' ''https://other.example/a'']
            else if r = 3 then [sampleFact ''Beta'' ''https://nist.gov/b'',
                                sampleFact ''Gamma'' ''https://en.wikipedia.org/wiki/G'',
                                sampleFact ''Delta'' ''https://x.com/d'']
            else []),
           conflicts = [] \<rparr>) \<rparr>"

definition sampleRun :: "(error \<times> loop_state) + loop_state" where
  "sampleRun =
     researchRounds sampleHostOf ''What is X?'' (mkCfg sampleOptions) samplePlan sampleStages"

text \<open>The same run with one round allowed.\<close>

definition oneRoundRun :: "(error \<times> loop_state) + loop_state" where
  "oneRoundRun =
     researchRounds sampleHostOf ''What is X?''
       (mkCfg (sampleOptions\<lparr> o_maxSearchRounds := JNum (Fin 1) \<rparr>)) samplePlan sampleStages"

text \<open>The property of a fact that the confidence clamp maintains.\<close>

definition clampOk :: "fact \<Rightarrow> bool" where
  "clampOk f = (\<not> (f_source_quality f \<le> 2 \<and> numLt (Fin 3) (f_confidence f)))"

text \<open>A job that is still running, and a provider that says so at every fetch.\<close>

definition stillRunning :: response_data where
  "stillRunning = \<lparr> rd_id = ''resp_abc123'', rd_status = ''in_progress'', rd_output_text = None,
                      rd_output = [], rd_error_message = [], rd_error_code = [] \<rparr>"

definition neverDone :: "nat \<Rightarrow> poll_response" where
  "neverDone k = PollOk stillRunning"

text \<open>A completed job whose answer is in its output items.\<close>

definition doneJob :: response_data where
  "doneJob = \<lparr> rd_id = ''resp_abc123'', rd_status = ''completed'', rd_output_text = None,
                 rd_output = [ContentOther,
                              ContentArray [ContentPart ''output_text'' ''X is a letter. '',
                                            ContentPart ''refusal'' ''no'']],
                 rd_error_message = [], rd_error_code = [] \<rparr>"

section \<open>Properties\<close>

subsection \<open>Request options\<close>

lemma stringToNumber_abc: "stringToNumber ''abc'' = NaN"
  by (simp add: stringToNumber_def trim_def isWs_def radixOf_def strDecimal_def
      strUnsignedDecimal_def isDigit_def)

lemma clampInt_range: "mn \<le> mx \<Longrightarrow> mn \<le> clampInt v mn mx \<and> clampInt v mn mx \<le> mx"
  by (simp add: clampInt_def split: jsnum.split)

text \<open>
  C10.  A value that \<^verbatim>\<open>Number\<close> does not turn into a finite number makes \<^verbatim>\<open>clampInt\<close>
  return its lower bound, not the option's documented default: with
  \<^verbatim>\<open>options.maxFacts = "abc"\<close> the effective \<open>maxFacts\<close> is 5 and with
  \<^verbatim>\<open>options.maxSearchRounds = "abc"\<close> the effective \<open>maxSearchRounds\<close> is 1, whereas the
  absent options give the defaults 18 and 4.
\<close>

theorem clampInt_not_finite_is_min:
  "(\<not> isFinite (toNumber v) \<longrightarrow> clampInt v mn mx = mn)
   \<and> maxFacts (mkCfg (opts\<lparr>o_maxFacts := JStr ''abc''\<rparr>)) = 5
   \<and> maxSearchRounds (mkCfg (opts\<lparr>o_maxSearchRounds := JStr ''abc''\<rparr>)) = 1
   \<and> maxFacts (mkCfg (opts\<lparr>o_maxFacts := JUndefined\<rparr>)) = 18
   \<and> maxSearchRounds (mkCfg (opts\<lparr>o_maxSearchRounds := JUndefined\<rparr>)) = 4"
proof -
  have general: "\<not> isFinite (toNumber v) \<longrightarrow> clampInt v mn mx = mn"
    by (cases "toNumber v") (simp_all add: clampInt_def)
  have abc: "clampInt (JStr ''abc'') lo hi = lo" for lo hi
    by (simp add: clampInt_def stringToNumber_abc)
  have dflt18: "clampInt (JNum (Fin 18)) 5 50 = 18"
    by (simp add: clampInt_def trunc_def)
  have dflt4: "clampInt (JNum (Fin 4)) 1 10 = 4"
    by (simp add: clampInt_def trunc_def)
  show ?thesis
    using general by (simp add: mkCfg_def nullish_def abc dflt18 dflt4)
qed

theorem clampInt_not_finite_is_min_witness:
  "\<not> isFinite (toNumber (JStr ''abc'')) \<and> clampInt (JStr ''abc'') 5 50 = 5
   \<and> \<not> isFinite (toNumber (JNum NaN)) \<and> clampInt (JNum NaN) 5 50 = 5
   \<and> \<not> isFinite (toNumber (JNum PosInf)) \<and> clampInt (JNum PosInf) 1 10 = 1"
  using clampInt_not_finite_is_min [of "JStr ''abc''" 5 50]
    clampInt_not_finite_is_min [of "JNum NaN" 5 50]
    clampInt_not_finite_is_min [of "JNum PosInf" 1 10]
  by (simp add: stringToNumber_abc)

subsection \<open>Retries\<close>

lemma retryLoop_retry:
  assumes "int a < maxR" "transientFailure (ex a)"
  shows "retryLoop (\<lambda>k. createAttempt (ex k)) maxR b (int a) sl le =
         retryLoop (\<lambda>k. createAttempt (ex k)) maxR b (int (Suc a)) (sl @ [b * 2 ^ a])
           (Some (createAttempt (ex a)))"
  using assms
  by (subst retryLoop.simps, cases "ex a")
    (auto simp: defaultShouldRetry_def mentions_def Let_def add.commute split: err_val.splits)

lemma retryLoop_stop:
  assumes "int a \<le> maxR" "int a = maxR \<or> \<not> transientFailure (ex a)"
  shows "retryLoop (\<lambda>k. createAttempt (ex k)) maxR b (int a) sl le =
         \<lparr> rr_final = surfaced (ex a), rr_sleeps = sl, rr_calls = a + 1 \<rparr>"
  using assms
  by (subst retryLoop.simps, cases "ex a")
    (auto simp: defaultShouldRetry_def mentions_def Let_def split: err_val.splits)

lemma retryLoop_run:
  assumes "\<forall>i. a \<le> i \<and> i < k \<longrightarrow> transientFailure (ex i)" "a \<le> k" "int k \<le> maxR"
    "int k = maxR \<or> \<not> transientFailure (ex k)"
  shows "retryLoop (\<lambda>k. createAttempt (ex k)) maxR b (int a) sl le =
         \<lparr> rr_final = surfaced (ex k), rr_sleeps = sl @ map (\<lambda>i. b * 2 ^ i) [a..<k],
           rr_calls = k + 1 \<rparr>"
  using assms
proof (induction "k - a" arbitrary: a sl le)
  case 0
  then have "a = k" by simp
  with 0 show ?case by (simp add: retryLoop_stop)
next
  case (Suc n)
  then have lt: "a < k" by simp
  with Suc.prems have tr: "transientFailure (ex a)" by simp
  have "retryLoop (\<lambda>k. createAttempt (ex k)) maxR b (int a) sl le =
        retryLoop (\<lambda>k. createAttempt (ex k)) maxR b (int (Suc a)) (sl @ [b * 2 ^ a])
          (Some (createAttempt (ex a)))"
    using lt Suc.prems(3) tr by (intro retryLoop_retry) auto
  also have "\<dots> = \<lparr> rr_final = surfaced (ex k),
      rr_sleeps = (sl @ [b * 2 ^ a]) @ map (\<lambda>i. b * 2 ^ i) [Suc a..<k], rr_calls = k + 1 \<rparr>"
    using Suc.hyps(2) Suc.prems lt by (intro Suc.hyps(1)) auto
  finally show ?case using lt by (simp add: upt_conv_Cons)
qed

text \<open>
  C8 (as amended).  The remote-completion call with \<open>m\<close> retries allowed (3 when the caller
  names none) recognises a transient failure by HTTP status 429, a 5xx status, or a
  rejected fetch whose error message, lowercased, contains \<^verbatim>\<open>network\<close>, \<^verbatim>\<open>timeout\<close> or
  \<^verbatim>\<open>econnreset\<close>.  When its first \<open>k \<le> m\<close> exchanges fail in that way and exchange \<open>k\<close>
  is the last one allowed (\<open>k = m\<close>) or is anything else (a success, a 4xx other than
  429, or a rejection with any other error), then exactly \<open>k + 1\<close> exchanges are made, the
  delays slept between them are \<open>1000 * 2 ^ i\<close> for \<open>i = 0, \<dots>, k - 1\<close>, and the outcome of
  exchange \<open>k\<close> is what the call surfaces (returned when it is a response, rethrown when
  the fetch rejected).  With \<open>k = 0\<close>: a failure outside the transient class is surfaced at
  once, with no delay and no retry.
\<close>

theorem openaiResponsesCreate_retry_policy:
  assumes "m = (case maxR of None \<Rightarrow> 3 | Some x \<Rightarrow> x)"
    and "int k \<le> m"
    and "\<forall>i<k. transientFailure (exchanges i)"
    and "int k = m \<or> \<not> transientFailure (exchanges k)"
  shows "openaiResponsesCreate exchanges maxR =
         \<lparr> rr_final = surfaced (exchanges k),
           rr_sleeps = map (\<lambda>i. 1000 * 2 ^ i) [0..<k],
           rr_calls = k + 1 \<rparr>"
proof -
  have "retryLoop (\<lambda>j. createAttempt (exchanges j)) m 1000 (int 0) [] None =
        \<lparr> rr_final = surfaced (exchanges k),
          rr_sleeps = [] @ map (\<lambda>i. 1000 * 2 ^ i) [0..<k], rr_calls = k + 1 \<rparr>"
    using assms by (intro retryLoop_run) auto
  then show ?thesis
    using assms(1) by (simp add: openaiResponsesCreate_def retryWithBackoff_def)
qed

theorem openaiResponsesCreate_retry_policy_witness:
  "openaiResponsesCreate
     (\<lambda>j. [HttpResponse 503 ''busy'', HttpResponse 429 ''slow down'',
           FetchThrows (ErrInstance ''Network connection lost.''), HttpResponse 500 ''oops''] ! j)
     None =
   \<lparr> rr_final = Returned (Some \<lparr> fr_ok = False, fr_status = Some 500,
                                 fr_error = Some (ErrPayload ''oops''), fr_data = None \<rparr>),
     rr_sleeps = [1000, 2000, 4000], rr_calls = 4 \<rparr>
   \<and> openaiResponsesCreate (\<lambda>j. HttpResponse 400 ''bad request'') (Some 3) =
   \<lparr> rr_final = Returned (Some \<lparr> fr_ok = False, fr_status = Some 400,
                                 fr_error = Some (ErrPayload ''bad request''), fr_data = None \<rparr>),
     rr_sleeps = [], rr_calls = 1 \<rparr>
   \<and> openaiResponsesCreate
     (\<lambda>j. [FetchThrows (ErrInstance ''Request timeout''),
           FetchThrows (ErrInstance ''read ECONNRESET''), HttpResponse 200 ''{}''] ! j) (Some 2) =
   \<lparr> rr_final = Returned (Some \<lparr> fr_ok = True, fr_status = Some 200,
                                 fr_error = None, fr_data = Some ''{}'' \<rparr>),
     rr_sleeps = [1000, 2000], rr_calls = 3 \<rparr>"
proof -
  let ?ex1 = "\<lambda>j. [HttpResponse 503 ''busy'', HttpResponse 429 ''slow down'',
           FetchThrows (ErrInstance ''Network connection lost.''), HttpResponse 500 ''oops''] ! j"
  let ?ex3 = "\<lambda>j. [FetchThrows (ErrInstance ''Request timeout''),
           FetchThrows (ErrInstance ''read ECONNRESET''), HttpResponse 200 ''{}''] ! j"
  have t1: "\<forall>i<3. transientFailure (?ex1 i)"
    by (simp add: numeral_3_eq_3 All_less_Suc mentions_def toLowerCase_def lowerChar_def)
  have t3: "\<forall>i<2. transientFailure (?ex3 i)"
    by (simp add: numeral_2_eq_2 All_less_Suc mentions_def toLowerCase_def lowerChar_def)
  have u: "[0..<3] = [0, 1, 2]" by (simp add: numeral_3_eq_3)
  have u2: "[0..<2] = [0, 1]" by (simp add: numeral_2_eq_2)
  show ?thesis
    using openaiResponsesCreate_retry_policy [of 3 None 3 ?ex1, OF _ _ t1]
      openaiResponsesCreate_retry_policy [of 3 "Some 3" 0 "\<lambda>j. HttpResponse 400 ''bad request''"]
      openaiResponsesCreate_retry_policy [of 2 "Some 2" 2 ?ex3, OF _ _ t3]
    by (simp add: u u2)
qed

text \<open>
  C8 as stated fails: a fetch that is rejected for a transport failure whose message has
  none of the three words, such as \<^verbatim>\<open>fetch failed\<close> or \<^verbatim>\<open>connect ETIMEDOUT\<close>, is rethrown
  after one attempt, with no delay and no retry, although three retries are allowed.
\<close>

theorem unrecognised_transport_error_counterexample:
  "openaiResponsesCreate (\<lambda>j. FetchThrows (ErrInstance ''fetch failed'')) None =
     \<lparr> rr_final = Thrown (ErrInstance ''fetch failed''), rr_sleeps = [], rr_calls = 1 \<rparr>
   \<and> openaiResponsesCreate (\<lambda>j. FetchThrows (ErrInstance ''connect ETIMEDOUT 10.0.0.1:443''))
       (Some 3) =
     \<lparr> rr_final = Thrown (ErrInstance ''connect ETIMEDOUT 10.0.0.1:443''), rr_sleeps = [],
       rr_calls = 1 \<rparr>"
  by code_simp

subsection \<open>Source quality and the domain filter\<close>

lemma domainQualityScore_cases:
  "domainQualityScore url =
     (let u = toLowerCase url in
      if tierGovEdu u then 5 else if tierDocs u then 4 else if tierResearch u then 4
      else if tierReference u then 3 else if tierBlogs u then 2 else if tierSocial u then 1
      else 2)"
  by (simp add: domainQualityScore_def tierGovEdu_def tierDocs_def tierResearch_def
      tierReference_def tierBlogs_def tierSocial_def Let_def)

text \<open>
  C4 (as amended).  The score is a function of the URL text with values in 1..5;
  \<^verbatim>\<open>https://nist.gov/x\<close> scores 5, \<^verbatim>\<open>https://example.medium.com/post\<close> scores 2 and
  \<^verbatim>\<open>https://x.com/user/status/1\<close> scores 1.  The lookup table is matched against the
  whole lowercased URL, not its host alone: a URL whose text matches no tier scores 2, and
  the tiers are tried in the order government and education, documentation and standards,
  research publishers, reference encyclopedias, blogs, social media, the first match
  deciding the score.
\<close>

theorem domainQualityScore_tiers:
  "1 \<le> domainQualityScore url \<and> domainQualityScore url \<le> 5
   \<and> domainQualityScore ''https://nist.gov/x'' = 5
   \<and> domainQualityScore ''https://example.medium.com/post'' = 2
   \<and> domainQualityScore ''https://x.com/user/status/1'' = 1
   \<and> (\<not> matchesLookupTable (toLowerCase url) \<longrightarrow> domainQualityScore url = 2)
   \<and> (tierGovEdu (toLowerCase url) \<longrightarrow> domainQualityScore url = 5)
   \<and> (\<not> tierGovEdu (toLowerCase url) \<and> tierDocs (toLowerCase url) \<longrightarrow> domainQualityScore url = 4)
   \<and> (\<not> tierGovEdu (toLowerCase url) \<and> \<not> tierDocs (toLowerCase url)
        \<and> tierResearch (toLowerCase url) \<longrightarrow> domainQualityScore url = 4)
   \<and> (\<not> tierGovEdu (toLowerCase url) \<and> \<not> tierDocs (toLowerCase url)
        \<and> \<not> tierResearch (toLowerCase url) \<and> tierReference (toLowerCase url)
        \<longrightarrow> domainQualityScore url = 3)
   \<and> (\<not> tierGovEdu (toLowerCase url) \<and> \<not> tierDocs (toLowerCase url)
        \<and> \<not> tierResearch (toLowerCase url) \<and> \<not> tierReference (toLowerCase url)
        \<and> tierBlogs (toLowerCase url) \<longrightarrow> domainQualityScore url = 2)
   \<and> (\<not> tierGovEdu (toLowerCase url) \<and> \<not> tierDocs (toLowerCase url)
        \<and> \<not> tierResearch (toLowerCase url) \<and> \<not> tierReference (toLowerCase url)
        \<and> \<not> tierBlogs (toLowerCase url) \<and> tierSocial (toLowerCase url)
        \<longrightarrow> domainQualityScore url = 1)"
proof -
  have range: "1 \<le> domainQualityScore url \<and> domainQualityScore url \<le> 5"
    by (simp add: domainQualityScore_cases Let_def)
  have nist: "domainQualityScore ''https://nist.gov/x'' = 5" by code_simp
  have medium: "domainQualityScore ''https://example.medium.com/post'' = 2" by code_simp
  have x: "domainQualityScore ''https://x.com/user/status/1'' = 1" by code_simp
  have tiers: "domainQualityScore url =
     (if tierGovEdu (toLowerCase url) then 5 else if tierDocs (toLowerCase url) then 4
      else if tierResearch (toLowerCase url) then 4 else if tierReference (toLowerCase url) then 3
      else if tierBlogs (toLowerCase url) then 2 else if tierSocial (toLowerCase url) then 1
      else 2)"
    by (simp add: domainQualityScore_cases Let_def)
  show ?thesis
    using range nist medium x by (simp add: tiers matchesLookupTable_def)
qed

theorem domainQualityScore_tiers_witness:
  "\<not> tierGovEdu (toLowerCase ''https://Docs.medium.com/guide'')
   \<and> tierDocs (toLowerCase ''https://Docs.medium.com/guide'')
   \<and> domainQualityScore ''https://Docs.medium.com/guide'' = 4
   \<and> \<not> matchesLookupTable (toLowerCase ''https://example.org/page'')
   \<and> domainQualityScore ''https://example.org/page'' = 2"
proof -
  have a: "\<not> tierGovEdu (toLowerCase ''https://Docs.medium.com/guide'')" by code_simp
  have b: "tierDocs (toLowerCase ''https://Docs.medium.com/guide'')" by code_simp
  have c: "\<not> matchesLookupTable (toLowerCase ''https://example.org/page'')" by code_simp
  show ?thesis
    using domainQualityScore_tiers [of "''https://Docs.medium.com/guide''"]
      domainQualityScore_tiers [of "''https://example.org/page''"] a b c
    by blast
qed

text \<open>
  C4 as stated fails: the host \<^verbatim>\<open>example.com\<close> matches no entry of the lookup table, yet
  the URL scores 4, because \<^verbatim>\<open>docs.\<close> occurs in its path.
\<close>

theorem unmatched_host_counterexample:
  "sampleHostOf ''https://example.com/docs.html'' = Some ''example.com''
   \<and> \<not> matchesLookupTable ''example.com''
   \<and> domainQualityScore ''https://example.com/docs.html'' = 4"
  by code_simp

lemma startsWith_iff: "startsWith s x \<longleftrightarrow> (\<exists>q. s = x @ q)"
  by (induction s x rule: startsWith.induct) auto

lemma endsWith_iff: "endsWith s x \<longleftrightarrow> (\<exists>p. s = p @ x)"
proof -
  have "endsWith s x \<longleftrightarrow> (\<exists>q. rev s = rev x @ q)"
    by (simp add: endsWith_def startsWith_iff)
  also have "\<dots> \<longleftrightarrow> (\<exists>p. s = p @ x)"
  proof
    assume "\<exists>q. rev s = rev x @ q"
    then obtain q where "rev s = rev x @ q" ..
    then have "s = rev q @ x" by (metis rev_append rev_rev_ident)
    then show "\<exists>p. s = p @ x" ..
  next
    assume "\<exists>p. s = p @ x"
    then obtain p where "s = p @ x" ..
    then have "rev s = rev x @ rev p" by simp
    then show "\<exists>q. rev s = rev x @ q" ..
  qed
  finally show ?thesis .
qed

lemma domainMatches_iff:
  "domainMatches host d \<longleftrightarrow>
     (let dd = trim (toLowerCase d) in
      dd \<noteq> [] \<and>
      (if hd dd = CHR ''.'' then (\<exists>p. host = p @ dd)
       else host = dd \<or> (\<exists>p. host = p @ ''.'' @ dd)))"
proof (cases "trim (toLowerCase d)")
  case Nil
  then show ?thesis by (simp add: domainMatches_def)
next
  case (Cons c cs)
  then show ?thesis
    by (simp add: domainMatches_def endsWith_iff)
qed

lemma epa_facts_normalized:
  "mapE normalizeFact
     [sampleFact ''a finding'' ''https://epa.gov/report'',
      sampleFact ''a finding'' ''https://epa.com/report''] =
   Inr [\<lparr> f_fact = JStr ''a finding'', f_url = ''https://epa.gov/report'', f_title = JNull,
           f_date = JNull, f_confidence = Fin 4, f_source_quality = 5 \<rparr>,
        \<lparr> f_fact = JStr ''a finding'', f_url = ''https://epa.com/report'', f_title = JNull,
           f_date = JNull, f_confidence = Fin 3, f_source_quality = 2 \<rparr>]"
  by code_simp

lemma epa_facts_acceptable:
  "acceptable \<lparr> f_fact = JStr ''a finding'', f_url = ''https://epa.gov/report'', f_title = JNull,
                f_date = JNull, f_confidence = Fin 4, f_source_quality = 5 \<rparr>
   \<and> acceptable \<lparr> f_fact = JStr ''a finding'', f_url = ''https://epa.com/report'', f_title = JNull,
                  f_date = JNull, f_confidence = Fin 3, f_source_quality = 2 \<rparr>"
  by code_simp

lemma govOnly_forceDomains: "forceDomains govOnly = Some [''.gov'']"
  by code_simp

lemma epa_gov_matches: "domainMatches (toLowerCase ''epa.gov'') ''.gov''"
  by code_simp

lemma epa_com_matches_not: "\<not> domainMatches (toLowerCase ''epa.com'') ''.gov''"
  by code_simp

text \<open>
  C5.  Whatever host names the URL constructor reports (\<open>hostOf\<close>): with a non-empty
  \<^verbatim>\<open>forceDomains\<close>, a URL is allowed exactly when it parses and its lowercased host
  matches one of the entries, each lowercased and trimmed and not empty: an entry that
  starts with a dot matches when the host ends with it, any other entry when the host
  equals it or ends with a dot followed by it.  A URL that does not parse is rejected.
  With \<^verbatim>\<open>[".gov"]\<close>, \<^verbatim>\<open>https://epa.gov/report\<close>, whose host is \<^verbatim>\<open>epa.gov\<close>, is allowed
  and \<^verbatim>\<open>https://epa.com/report\<close>, whose host is \<^verbatim>\<open>epa.com\<close>, is not, and of two otherwise
  acceptable facts with these URLs the round keeps the first only.
\<close>

theorem urlAllowedByForceDomains_rule:
  "(ds \<noteq> [] \<longrightarrow>
      urlAllowedByForceDomains hostOf url (Some ds) =
        (\<exists>host. hostOf url = Some host \<and>
           (\<exists>d \<in> set ds.
              let dd = trim (toLowerCase d) in
              dd \<noteq> [] \<and>
              (if hd dd = CHR ''.'' then (\<exists>p. toLowerCase host = p @ dd)
               else toLowerCase host = dd \<or> (\<exists>p. toLowerCase host = p @ ''.'' @ dd)))))
   \<and> (ds \<noteq> [] \<and> hostOf url = None \<longrightarrow> \<not> urlAllowedByForceDomains hostOf url (Some ds))
   \<and> (hostOf ''https://epa.gov/report'' = Some ''epa.gov'' \<longrightarrow>
        urlAllowedByForceDomains hostOf ''https://epa.gov/report'' (Some [''.gov'']))
   \<and> (hostOf ''https://epa.com/report'' = Some ''epa.com'' \<longrightarrow>
        \<not> urlAllowedByForceDomains hostOf ''https://epa.com/report'' (Some [''.gov'']))
   \<and> (hostOf ''https://epa.gov/report'' = Some ''epa.gov''
        \<and> hostOf ''https://epa.com/report'' = Some ''epa.com'' \<longrightarrow>
        normalizeRound hostOf govOnly
          [sampleFact ''a finding'' ''https://epa.gov/report'',
           sampleFact ''a finding'' ''https://epa.com/report''] =
        Inr [\<lparr> f_fact = JStr ''a finding'', f_url = ''https://epa.gov/report'', f_title = JNull,
                f_date = JNull, f_confidence = Fin 4, f_source_quality = 5 \<rparr>])"
proof -
  have rule: "urlAllowedByForceDomains hostOf url (Some ds) =
        (\<exists>host. hostOf url = Some host \<and>
           (\<exists>d \<in> set ds.
              let dd = trim (toLowerCase d) in
              dd \<noteq> [] \<and>
              (if hd dd = CHR ''.'' then (\<exists>p. toLowerCase host = p @ dd)
               else toLowerCase host = dd \<or> (\<exists>p. toLowerCase host = p @ ''.'' @ dd))))"
    if "ds \<noteq> []"
    using that
    by (cases "hostOf url")
      (simp_all add: urlAllowedByForceDomains_def list_ex_iff domainMatches_iff)
  have unparsed: "\<not> urlAllowedByForceDomains hostOf url (Some ds)"
    if "ds \<noteq> []" "hostOf url = None"
    using that by (simp add: urlAllowedByForceDomains_def)
  have gov: "urlAllowedByForceDomains hostOf ''https://epa.gov/report'' (Some [''.gov''])"
    if "hostOf ''https://epa.gov/report'' = Some ''epa.gov''"
    using that epa_gov_matches by (simp add: urlAllowedByForceDomains_def)
  have com: "\<not> urlAllowedByForceDomains hostOf ''https://epa.com/report'' (Some [''.gov''])"
    if "hostOf ''https://epa.com/report'' = Some ''epa.com''"
    using that epa_com_matches_not by (simp add: urlAllowedByForceDomains_def)
  have round: "normalizeRound hostOf govOnly
          [sampleFact ''a finding'' ''https://epa.gov/report'',
           sampleFact ''a finding'' ''https://epa.com/report''] =
        Inr [\<lparr> f_fact = JStr ''a finding'', f_url = ''https://epa.gov/report'', f_title = JNull,
                f_date = JNull, f_confidence = Fin 4, f_source_quality = 5 \<rparr>]"
    if "hostOf ''https://epa.gov/report'' = Some ''epa.gov''"
      "hostOf ''https://epa.com/report'' = Some ''epa.com''"
    using gov [OF that(1)] com [OF that(2)] epa_facts_acceptable
    unfolding normalizeRound_def epa_facts_normalized govOnly_forceDomains
    by simp
  from rule unparsed gov com round show ?thesis by blast
qed

theorem urlAllowedByForceDomains_rule_witness:
  "sampleHostOf ''https://www.epa.gov/report'' = Some ''www.epa.gov''
   \<and> urlAllowedByForceDomains sampleHostOf ''https://www.epa.gov/report''
        (Some [''nih.gov'', '' EPA.gov ''])
   \<and> sampleHostOf ''epa.gov/report'' = None
   \<and> \<not> urlAllowedByForceDomains sampleHostOf ''epa.gov/report'' (Some [''.gov''])
   \<and> urlAllowedByForceDomains sampleHostOf ''https://epa.gov/report'' (Some [''.gov''])
   \<and> \<not> urlAllowedByForceDomains sampleHostOf ''https://epa.com/report'' (Some [''.gov''])
   \<and> normalizeRound sampleHostOf govOnly
        [sampleFact ''a finding'' ''https://epa.gov/report'',
         sampleFact ''a finding'' ''https://epa.com/report''] =
      Inr [\<lparr> f_fact = JStr ''a finding'', f_url = ''https://epa.gov/report'', f_title = JNull,
              f_date = JNull, f_confidence = Fin 4, f_source_quality = 5 \<rparr>]"
proof -
  have h: "sampleHostOf ''https://www.epa.gov/report'' = Some ''www.epa.gov''" by code_simp
  have n: "sampleHostOf ''epa.gov/report'' = None" by code_simp
  have g: "sampleHostOf ''https://epa.gov/report'' = Some ''epa.gov''" by code_simp
  have c: "sampleHostOf ''https://epa.com/report'' = Some ''epa.com''" by code_simp
  have d: "trim (toLowerCase '' EPA.gov '') = ''epa.gov''" by code_simp
  have l: "toLowerCase ''www.epa.gov'' = ''www.epa.gov''" by code_simp
  have "urlAllowedByForceDomains sampleHostOf ''https://www.epa.gov/report''
          (Some [''nih.gov'', '' EPA.gov ''])"
    using urlAllowedByForceDomains_rule
      [of "[''nih.gov'', '' EPA.gov '']" sampleHostOf "''https://www.epa.gov/report''"]
    by (simp add: h d l)
  moreover have "\<not> urlAllowedByForceDomains sampleHostOf ''epa.gov/report'' (Some [''.gov''])"
    using urlAllowedByForceDomains_rule [of "[''.gov'']" sampleHostOf "''epa.gov/report''"] n
    by simp
  moreover have "urlAllowedByForceDomains sampleHostOf ''https://epa.gov/report'' (Some [''.gov''])"
    "\<not> urlAllowedByForceDomains sampleHostOf ''https://epa.com/report'' (Some [''.gov''])"
    "normalizeRound sampleHostOf govOnly
        [sampleFact ''a finding'' ''https://epa.gov/report'',
         sampleFact ''a finding'' ''https://epa.com/report''] =
      Inr [\<lparr> f_fact = JStr ''a finding'', f_url = ''https://epa.gov/report'', f_title = JNull,
              f_date = JNull, f_confidence = Fin 4, f_source_quality = 5 \<rparr>]"
    using urlAllowedByForceDomains_rule [of "[''.gov'']" sampleHostOf "''https://epa.gov/report''"]
      g c
    by blast+
  ultimately show ?thesis using h n by simp
qed

subsection \<open>The research loop\<close>

lemma searchesOf_append: "searchesOf (xs @ ys) = searchesOf xs @ searchesOf ys"
  by (induction xs rule: searchesOf.induct) simp_all



lemma gatherRound_Inr:
  assumes "gatherRound hostOf c qs w rnd st = Inr st'"
  shows "\<exists>sr ex roundFacts.
           webSearch w rnd (queryAt qs rnd) = Inr sr
           \<and> extractFacts w rnd (snippetsText sr) = Inr ex
           \<and> normalizeRound hostOf c (facts ex) = Inr roundFacts
           \<and> dedupeFacts (allFacts st @ roundFacts) = Inr (allFacts st')
           \<and> seenUrls st' = fold addUrl (allFacts st') (seenUrls st)
           \<and> noNewRounds st' =
               (if int (length (allFacts st')) - int (length (allFacts st)) < minNewFactsPerRound c
                then noNewRounds st + 1 else 0)
           \<and> trace st' = trace st @
               [SearchEntry rnd (queryAt qs rnd) (response_id sr) (length (snippetsText sr)),
                ExtractEntry rnd (length (facts ex)) (length roundFacts)
                  (int (length (allFacts st')) - int (length (allFacts st)))
                  (length (allFacts st')) (length (seenUrls st'))]"
proof (cases "webSearch w rnd (queryAt qs rnd)")
  case (Inl e)
  with assms show ?thesis by (simp add: gatherRound_def Let_def)
next
  case sr: (Inr sr)
  show ?thesis
  proof (cases "extractFacts w rnd (snippetsText sr)")
    case (Inl e)
    with assms sr show ?thesis by (simp add: gatherRound_def Let_def)
  next
    case ex: (Inr ex)
    show ?thesis
    proof (cases "normalizeRound hostOf c (facts ex)")
      case (Inl e)
      with assms sr ex show ?thesis by (simp add: gatherRound_def Let_def)
    next
      case rf: (Inr roundFacts)
      show ?thesis
      proof (cases "dedupeFacts (allFacts st @ roundFacts)")
        case (Inl e)
        with assms sr ex rf show ?thesis by (simp add: gatherRound_def Let_def)
      next
        case (Inr merged)
        with assms sr ex rf show ?thesis
          by (auto simp: gatherRound_def Let_def)
      qed
    qed
  qed
qed

lemma gatherRound_Inl:
  assumes "gatherRound hostOf c qs w rnd st = Inl (e, st')"
  shows "allFacts st' = allFacts st
         \<and> (trace st' = trace st
             \<or> (\<exists>i n. trace st' = trace st @ [SearchEntry rnd (queryAt qs rnd) i n]))"
  using assms by (auto simp: gatherRound_def Let_def split: sum.splits)

lemma normalizeFact_clampOk: "normalizeFact rf = Inr f \<Longrightarrow> clampOk f"
  by (auto simp: normalizeFact_def clampOk_def Let_def split: sum.splits if_splits)

lemma normalizeFact_quality:
  "normalizeFact rf = Inr f \<Longrightarrow> f_source_quality f = domainQualityScore (f_url f)"
  by (auto simp: normalizeFact_def Let_def split: sum.splits)

lemma mapE_all:
  "mapE g xs = Inr ys \<Longrightarrow> (\<And>x y. g x = Inr y \<Longrightarrow> P y) \<Longrightarrow> \<forall>y\<in>set ys. P y"
  by (induction xs arbitrary: ys) (auto split: sum.splits)

lemma normalizeRound_clampOk:
  "normalizeRound hostOf c raw = Inr fs \<Longrightarrow> \<forall>f\<in>set fs. clampOk f"
  using mapE_all [of normalizeFact raw _ clampOk, OF _ normalizeFact_clampOk]
  by (auto simp: normalizeRound_def split: sum.splits)

lemma dedupeLoop_subset:
  "dedupeLoop seen out fs = Inr r \<Longrightarrow> set r \<subseteq> set out \<union> set fs"
proof (induction fs arbitrary: seen out)
  case Nil
  then show ?case by simp
next
  case (Cons f fs)
  then show ?case
    by (fastforce split: sum.splits if_splits)
qed

lemma dedupeFacts_subset: "dedupeFacts fs = Inr r \<Longrightarrow> set r \<subseteq> set fs"
  using dedupeLoop_subset [of "[]" "[]" fs r] by (simp add: dedupeFacts_def)

lemma gatherRound_allFacts:
  assumes "gatherRound hostOf c qs w rnd st = Inr st'"
  shows "\<exists>roundFacts. (\<forall>f\<in>set roundFacts. clampOk f)
           \<and> set (allFacts st') \<subseteq> set (allFacts st) \<union> set roundFacts"
proof -
  obtain ex :: extracted and roundFacts where
    n: "normalizeRound hostOf c (facts ex) = Inr roundFacts"
    and d: "dedupeFacts (allFacts st @ roundFacts) = Inr (allFacts st')"
    using gatherRound_Inr [OF assms] by blast
  from d have "set (allFacts st') \<subseteq> set (allFacts st) \<union> set roundFacts"
    using dedupeFacts_subset by fastforce
  with n show ?thesis
    using normalizeRound_clampOk by blast
qed

lemma gatherRound_thrown_allFacts:
  "gatherRound hostOf c qs w rnd st = Inl (e, st') \<Longrightarrow> allFacts st' = allFacts st"
  by (auto simp: gatherRound_def Let_def split: sum.splits)

lemma gatherRound_clampOk:
  assumes "\<forall>f\<in>set (allFacts st). clampOk f"
  shows "\<forall>f\<in>set (allFacts (finalState (gatherRound hostOf c qs w rnd st))). clampOk f"
proof (cases "gatherRound hostOf c qs w rnd st")
  case (Inl a)
  then show ?thesis
    using assms gatherRound_thrown_allFacts [of hostOf c qs w rnd st "fst a" "snd a"]
    by (cases a) simp
next
  case (Inr st')
  then show ?thesis
    using assms gatherRound_allFacts [OF Inr] by auto
qed

lemma researchLoop_clampOk:
  "\<forall>f\<in>set (allFacts st). clampOk f \<Longrightarrow>
   \<forall>f\<in>set (allFacts (finalState (researchLoop hostOf c qs lims w rnd st))). clampOk f"
proof (induction hostOf c qs lims w rnd st rule: researchLoop.induct)
  case (1 hostOf c qs lims w rnd st)
  show ?case
  proof (cases "rnd \<le> maxSearchRounds c")
    case False
    then show ?thesis using "1.prems" by (subst researchLoop.simps) simp
  next
    case True
    note le = this
    show ?thesis
    proof (cases "gatherRound hostOf c qs w rnd st")
      case (Inl a)
      then show ?thesis
        using le gatherRound_clampOk [OF "1.prems", of hostOf c qs w rnd]
        by (subst researchLoop.simps) simp
    next
      case (Inr st')
      have ok': "\<forall>f\<in>set (allFacts st'). clampOk f"
        using gatherRound_clampOk [OF "1.prems", of hostOf c qs w rnd] Inr by simp
      show ?thesis
      proof (cases "stopCheck c lims st'")
        case None
        then show ?thesis
          using le Inr "1.IH" [OF le Inr None ok']
          by (subst researchLoop.simps) simp
      next
        case (Some r)
        then show ?thesis
          using le Inr ok' by (subst researchLoop.simps) simp
      qed
    qed
  qed
qed

text \<open>
  C1.  Normalization scores a fact by its trimmed URL and caps its confidence at 3 whenever
  that score is at most 2; a round that starts from facts that all satisfy the clamp ends
  with facts that all satisfy it; and so, however a run of the loop ends, no fact of its
  accumulated evidence has source quality at most 2 and confidence above 3.
\<close>

theorem confidence_clamp_invariant:
  "(normalizeFact rf = Inr g \<longrightarrow>
      f_source_quality g = domainQualityScore (f_url g)
      \<and> \<not> (f_source_quality g \<le> 2 \<and> numLt (Fin 3) (f_confidence g)))
   \<and> ((\<forall>f\<in>set (allFacts st). clampOk f) \<longrightarrow>
        (\<forall>f\<in>set (allFacts (finalState (gatherRound hostOf c qs w rnd st))). clampOk f))
   \<and> (\<forall>f\<in>set (allFacts (finalState (researchRounds hostOf question c p w))).
        \<not> (f_source_quality f \<le> 2 \<and> numLt (Fin 3) (f_confidence f)))"
proof -
  have a: "normalizeFact rf = Inr g \<longrightarrow>
      f_source_quality g = domainQualityScore (f_url g)
      \<and> \<not> (f_source_quality g \<le> 2 \<and> numLt (Fin 3) (f_confidence g))"
    using normalizeFact_clampOk [of rf g] normalizeFact_quality [of rf g]
    by (simp add: clampOk_def)
  have b: "(\<forall>f\<in>set (allFacts st). clampOk f) \<longrightarrow>
        (\<forall>f\<in>set (allFacts (finalState (gatherRound hostOf c qs w rnd st))). clampOk f)"
    using gatherRound_clampOk by blast
  have "\<forall>f\<in>set (allFacts initialState). clampOk f"
    by (simp add: initialState_def)
  then have "\<forall>f\<in>set (allFacts (finalState (researchRounds hostOf question c p w))). clampOk f"
    unfolding researchRounds_def by (rule researchLoop_clampOk)
  then have c: "\<forall>f\<in>set (allFacts (finalState (researchRounds hostOf question c p w))).
        \<not> (f_source_quality f \<le> 2 \<and> numLt (Fin 3) (f_confidence f))"
    by (simp add: clampOk_def)
  from a b c show ?thesis by blast
qed

theorem confidence_clamp_invariant_witness:
  "normalizeFact (sampleFact ''Alpha'' ''https://blog.example/a'') =
     Inr \<lparr> f_fact = JStr ''Alpha'', f_url = ''https://blog.example/a'', f_title = JNull,
           f_date = JNull, f_confidence = Fin 3, f_source_quality = 2 \<rparr>
   \<and> domainQualityScore ''https://blog.example/a'' = 2
   \<and> map f_source_quality (allFacts (finalState sampleRun)) = [2, 5, 3, 1]
   \<and> map f_confidence (allFacts (finalState sampleRun)) = [Fin 3, Fin 4, Fin 4, Fin 3]
   \<and> list_all clampOk (allFacts (finalState sampleRun))"
proof -
  let ?g = "\<lparr> f_fact = JStr ''Alpha'', f_url = ''https://blog.example/a'', f_title = JNull,
           f_date = JNull, f_confidence = Fin 3, f_source_quality = 2 \<rparr>"
  have n: "normalizeFact (sampleFact ''Alpha'' ''https://blog.example/a'') = Inr ?g"
    by code_simp
  have q: "map f_source_quality (allFacts (finalState sampleRun)) = [2, 5, 3, 1]"
    by code_simp
  have k: "map f_confidence (allFacts (finalState sampleRun)) = [Fin 3, Fin 4, Fin 4, Fin 3]"
    by code_simp
  note inv = confidence_clamp_invariant
    [where rf = "sampleFact ''Alpha'' ''https://blog.example/a''" and g = ?g
      and st = initialState and hostOf = sampleHostOf and c = "mkCfg sampleOptions"
      and qs = "[]" and w = sampleStages
      and rnd = 1 and question = "''What is X?''" and p = samplePlan]
  from inv n have "domainQualityScore ''https://blog.example/a'' = 2"
    by simp
  moreover from inv have "list_all clampOk (allFacts (finalState sampleRun))"
    by (simp add: list_all_iff clampOk_def sampleRun_def)
  ultimately show ?thesis
    using n q k by simp
qed

lemma gatherRound_searches_Inr:
  "gatherRound hostOf c qs w rnd st = Inr st' \<Longrightarrow>
   searchesOf (trace st') = searchesOf (trace st) @ [(rnd, queryAt qs rnd)]"
  using gatherRound_Inr [of hostOf c qs w rnd st st'] by (auto simp: searchesOf_append)

lemma gatherRound_searches_Inl:
  "gatherRound hostOf c qs w rnd st = Inl (e, st') \<Longrightarrow>
   searchesOf (trace st') = searchesOf (trace st)
   \<or> searchesOf (trace st') = searchesOf (trace st) @ [(rnd, queryAt qs rnd)]"
  using gatherRound_Inl [of hostOf c qs w rnd st e st'] by (auto simp: searchesOf_append)

lemma researchLoop_searches:
  "\<exists>n. rnd - 1 \<le> n \<and> n \<le> max (rnd - 1) (maxSearchRounds c)
       \<and> searchesOf (trace (finalState (researchLoop hostOf c qs lims w rnd st))) =
           searchesOf (trace st) @ map (\<lambda>r. (r, queryAt qs r)) [rnd..n]"
proof (induction hostOf c qs lims w rnd st rule: researchLoop.induct)
  case (1 hostOf c qs lims w rnd st)
  show ?case
  proof (cases "rnd \<le> maxSearchRounds c")
    case False
    then have "researchLoop hostOf c qs lims w rnd st = Inr st"
      by (subst researchLoop.simps) simp
    then show ?thesis
      by (intro exI [of _ "rnd - 1"]) simp
  next
    case le: True
    show ?thesis
    proof (cases "gatherRound hostOf c qs w rnd st")
      case (Inl a)
      obtain e st' where a: "a = (e, st')" by (cases a)
      have res: "researchLoop hostOf c qs lims w rnd st = Inl (e, st')"
        using le Inl a by (subst researchLoop.simps) simp
      from gatherRound_searches_Inl [of hostOf c qs w rnd st e st'] Inl a
      consider "searchesOf (trace st') = searchesOf (trace st)"
        | "searchesOf (trace st') = searchesOf (trace st) @ [(rnd, queryAt qs rnd)]"
        by auto
      then show ?thesis
      proof cases
        case 1
        with res le show ?thesis by (intro exI [of _ "rnd - 1"]) simp
      next
        case 2
        with res le show ?thesis by (intro exI [of _ rnd]) simp
      qed
    next
      case (Inr st')
      have s': "searchesOf (trace st') = searchesOf (trace st) @ [(rnd, queryAt qs rnd)]"
        using gatherRound_searches_Inr [OF Inr] .
      show ?thesis
      proof (cases "stopCheck c lims st'")
        case (Some r)
        then have "researchLoop hostOf c qs lims w rnd st = Inr (st'\<lparr> trace := trace st' @ [StopEntry r] \<rparr>)"
          using le Inr by (subst researchLoop.simps) simp
        with s' le show ?thesis
          by (intro exI [of _ rnd]) (simp add: searchesOf_append)
      next
        case None
        then have res: "researchLoop hostOf c qs lims w rnd st = researchLoop hostOf c qs lims w (rnd + 1) st'"
          using le Inr by (subst researchLoop.simps) simp
        from "1.IH" [OF le Inr None] obtain n where
          n: "rnd \<le> n" "n \<le> max rnd (maxSearchRounds c)"
          and tr: "searchesOf (trace (finalState (researchLoop hostOf c qs lims w (rnd + 1) st'))) =
                   searchesOf (trace st') @ map (\<lambda>r. (r, queryAt qs r)) [rnd + 1..n]"
          by auto
        have "[rnd..n] = rnd # [rnd + 1..n]"
          using n(1) by (simp add: upto_rec1)
        with res tr s' n le show ?thesis
          by (intro exI [of _ n]) simp
      qed
    qed
  qed
qed

lemma queryAt_cyclic:
  assumes "qs \<noteq> []" "1 \<le> r" "r \<le> 10"
  shows "queryAt (take 10 qs) r = qs ! nat ((r - 1) mod int (length qs))"
proof (cases "length qs \<le> 10")
  case True
  then have "take 10 qs = qs" by simp
  moreover have "0 \<le> (r - 1) mod int (length qs)" "(r - 1) mod int (length qs) < int (length qs)"
    using assms by simp_all
  moreover have "Suc 0 \<le> length qs"
    using assms(1) by (cases qs) simp_all
  ultimately show ?thesis
    using assms by (simp add: queryAt_def jsRem_def Let_def max_def)
next
  case False
  then have len: "length (take 10 qs) = 10" by simp
  have m1: "(r - 1) mod 10 = r - 1" using assms by simp
  have m2: "(r - 1) mod int (length qs) = r - 1" using assms False by simp
  have "nat (r - 1) < 10" using assms by simp
  then have "take 10 qs ! nat (r - 1) = qs ! nat (r - 1)" by simp
  then show ?thesis
    using assms len m1 m2 by (simp add: queryAt_def jsRem_def Let_def)
qed

lemma maxSearchRounds_mkCfg:
  "1 \<le> maxSearchRounds (mkCfg opts) \<and> maxSearchRounds (mkCfg opts) \<le> 10"
  using clampInt_range [of 1 10] by (simp add: mkCfg_def)

text \<open>
  C3.  The loop is a total function: its recursion is bounded by the rounds that remain.
  For the configuration the handler builds from any options, any stage results and a plan
  with a non-empty query list \<open>qs\<close>, the searches of a run are those of the rounds
  \<open>1, \<dots>, n\<close> in order, for some \<open>n\<close> up to \<open>maxSearchRounds\<close>, and round \<open>r\<close> searches for
  \<open>qs ! ((r - 1) mod length qs)\<close>.  With three queries, round 1 searches for the first,
  and with one round allowed nothing else is searched.
\<close>

theorem research_loop_bounded_cyclic:
  assumes "queries p = Some qs" and "qs \<noteq> []"
  shows "(\<exists>n. 0 \<le> n \<and> n \<le> maxSearchRounds (mkCfg opts)
              \<and> searchesOf (trace (finalState (researchRounds hostOf question (mkCfg opts) p w))) =
                  map (\<lambda>r. (r, qs ! nat ((r - 1) mod int (length qs)))) [1..n])
         \<and> (length qs = 3 \<longrightarrow> queryAt (queriesOf question p) 1 = qs ! 0)
         \<and> (length qs = 3 \<and> maxSearchRounds (mkCfg opts) = 1 \<longrightarrow>
              searchesOf (trace (finalState (researchRounds hostOf question (mkCfg opts) p w)))
                \<in> {[], [(1, qs ! 0)]})"
proof -
  let ?c = "mkCfg opts"
  have bounds: "1 \<le> maxSearchRounds ?c" "maxSearchRounds ?c \<le> 10"
    using maxSearchRounds_mkCfg by simp_all
  have q: "queriesOf question p = take 10 qs"
    using assms by (simp add: queriesOf_def)
  obtain n where n: "0 \<le> n" "n \<le> maxSearchRounds ?c"
    and tr: "searchesOf (trace (finalState (researchRounds hostOf question ?c p w))) =
             map (\<lambda>r. (r, queryAt (take 10 qs) r)) [1..n]"
    using researchLoop_searches [of 1 ?c hostOf "queriesOf question p" "limitsOf p" w initialState] bounds
    by (auto simp: researchRounds_def initialState_def q)
  have "map (\<lambda>r. (r, queryAt (take 10 qs) r)) [1..n] =
        map (\<lambda>r. (r, qs ! nat ((r - 1) mod int (length qs)))) [1..n]"
    using assms(2) n bounds by (intro map_cong) (auto simp: queryAt_cyclic)
  with tr have main: "searchesOf (trace (finalState (researchRounds hostOf question ?c p w))) =
        map (\<lambda>r. (r, qs ! nat ((r - 1) mod int (length qs)))) [1..n]"
    by simp
  have first: "queryAt (queriesOf question p) 1 = qs ! 0" if "length qs = 3"
    using queryAt_cyclic [OF assms(2), of 1] that by (simp add: q)
  have one: "searchesOf (trace (finalState (researchRounds hostOf question ?c p w))) \<in> {[], [(1, qs ! 0)]}"
    if "length qs = 3" "maxSearchRounds ?c = 1"
  proof -
    from n that have "n = 0 \<or> n = 1" by auto
    then show ?thesis
      using main that by (auto simp: upto_rec1)
  qed
  from n main first one show ?thesis by blast
qed

theorem research_loop_bounded_cyclic_witness:
  "queries samplePlan = Some [JStr ''q1'', JStr ''q2'', JStr ''q3'']
   \<and> maxSearchRounds (mkCfg sampleOptions) = 6
   \<and> searchesOf (trace (finalState sampleRun)) =
       [(1, JStr ''q1''), (2, JStr ''q2''), (3, JStr ''q3''), (4, JStr ''q1''), (5, JStr ''q2'')]
   \<and> queryAt (queriesOf ''What is X?'' samplePlan) 1 = JStr ''q1''
   \<and> searchesOf (trace (finalState oneRoundRun)) = [(1, JStr ''q1'')]"
proof -
  let ?qs = "[JStr ''q1'', JStr ''q2'', JStr ''q3'']"
  have p: "queries samplePlan = Some ?qs" by (simp add: samplePlan_def)
  have m: "maxSearchRounds (mkCfg sampleOptions) = 6" by code_simp
  have s: "searchesOf (trace (finalState sampleRun)) =
       [(1, JStr ''q1''), (2, JStr ''q2''), (3, JStr ''q3''), (4, JStr ''q1''), (5, JStr ''q2'')]"
    by code_simp
  have m1: "maxSearchRounds (mkCfg (sampleOptions\<lparr> o_maxSearchRounds := JNum (Fin 1) \<rparr>)) = 1"
    by code_simp
  have ne: "searchesOf (trace (finalState oneRoundRun)) \<noteq> []" by code_simp
  have first: "queryAt (queriesOf ''What is X?'' samplePlan) 1 = JStr ''q1''"
    using research_loop_bounded_cyclic
      [OF p, where opts = sampleOptions and hostOf = sampleHostOf and question = "''What is X?''"
        and w = sampleStages]
    by simp
  have one: "searchesOf (trace (finalState oneRoundRun)) = [(1, JStr ''q1'')]"
    using research_loop_bounded_cyclic
      [OF p, where opts = "sampleOptions\<lparr> o_maxSearchRounds := JNum (Fin 1) \<rparr>"
        and hostOf = sampleHostOf and question = "''What is X?''" and w = sampleStages] m1 ne
    by (simp add: oneRoundRun_def)
  from p m s first one show ?thesis by simp
qed








subsection \<open>The final answer\<close>

text \<open>
  C9 (as amended).  When the validator does not report \<^verbatim>\<open>ok\<close>, the final answer is its
  revised answer exactly when that value is truthy, whatever its type: a non-empty string,
  but also a non-zero number, \<^verbatim>\<open>true\<close>, an array or an object.  A revised answer that is
  missing, \<^verbatim>\<open>null\<close> or the empty string (or any other falsy value) leaves the draft as
  the final answer.  When the validator's output cannot be parsed, the default result
  carries the draft as its revised answer and the draft is the final answer; and so it is
  when the validator reports \<^verbatim>\<open>ok\<close>.
\<close>

theorem selectAnswer_revised_if_truthy:
  "(\<not> truthy (v_ok v) \<and> truthy (v_revised_answer v) \<longrightarrow>
      selectAnswer v draft = v_revised_answer v)
   \<and> (\<not> truthy (v_ok v) \<and> \<not> truthy (v_revised_answer v) \<longrightarrow> selectAnswer v draft = JStr draft)
   \<and> (\<not> truthy (v_ok v) \<and> v_revised_answer v = JStr s \<and> s \<noteq> [] \<longrightarrow> selectAnswer v draft = JStr s)
   \<and> (\<not> truthy (v_ok v)
        \<and> (v_revised_answer v = JUndefined \<or> v_revised_answer v = JNull
             \<or> v_revised_answer v = JStr [])
        \<longrightarrow> selectAnswer v draft = JStr draft)
   \<and> v_revised_answer (validateResult None draft) = JStr draft
   \<and> selectAnswer (validateResult None draft) draft = JStr draft
   \<and> (truthy (v_ok v) \<longrightarrow> selectAnswer v draft = JStr draft)"
  by (auto simp: selectAnswer_def validateResult_def jsOr_def)

theorem selectAnswer_revised_if_truthy_witness:
  "selectAnswer \<lparr> v_ok = JBool False, v_issues = [''unsupported claim''],
                   v_revised_answer = JStr ''revised [F1]'' \<rparr> ''draft [F1]'' = JStr ''revised [F1]''
   \<and> selectAnswer \<lparr> v_ok = JBool False, v_issues = [], v_revised_answer = JObj ''1,2'' \<rparr>
         ''draft [F1]'' = JObj ''1,2''
   \<and> selectAnswer \<lparr> v_ok = JBool False, v_issues = [], v_revised_answer = JStr [] \<rparr>
         ''draft [F1]'' = JStr ''draft [F1]''
   \<and> selectAnswer \<lparr> v_ok = JBool False, v_issues = [], v_revised_answer = JUndefined \<rparr>
         ''draft [F1]'' = JStr ''draft [F1]''
   \<and> selectAnswer \<lparr> v_ok = JBool False, v_issues = [], v_revised_answer = JNum (Fin 0) \<rparr>
         ''draft [F1]'' = JStr ''draft [F1]''
   \<and> selectAnswer \<lparr> v_ok = JBool True, v_issues = [], v_revised_answer = JStr ''other'' \<rparr>
         ''draft [F1]'' = JStr ''draft [F1]''"
  using selectAnswer_revised_if_truthy
      [of "\<lparr> v_ok = JBool False, v_issues = [''unsupported claim''],
            v_revised_answer = JStr ''revised [F1]'' \<rparr>" "''draft [F1]''" "''revised [F1]''"]
    selectAnswer_revised_if_truthy
      [of "\<lparr> v_ok = JBool False, v_issues = [], v_revised_answer = JObj ''1,2'' \<rparr>"
        "''draft [F1]''" "[]"]
    selectAnswer_revised_if_truthy
      [of "\<lparr> v_ok = JBool False, v_issues = [], v_revised_answer = JStr [] \<rparr>" "''draft [F1]''" "[]"]
    selectAnswer_revised_if_truthy
      [of "\<lparr> v_ok = JBool False, v_issues = [], v_revised_answer = JUndefined \<rparr>"
        "''draft [F1]''" "[]"]
    selectAnswer_revised_if_truthy
      [of "\<lparr> v_ok = JBool False, v_issues = [], v_revised_answer = JNum (Fin 0) \<rparr>"
        "''draft [F1]''" "[]"]
    selectAnswer_revised_if_truthy
      [of "\<lparr> v_ok = JBool True, v_issues = [], v_revised_answer = JStr ''other'' \<rparr>"
        "''draft [F1]''" "[]"]
  by simp

text \<open>
  C9 as stated fails: with \<^verbatim>\<open>{ok: false, revised_answer: 5}\<close> the final answer is the
  revised answer 5, which is no string, and not the draft.
\<close>

theorem non_string_revised_answer_counterexample:
  "selectAnswer \<lparr> v_ok = JBool False, v_issues = [], v_revised_answer = JNum (Fin 5) \<rparr>
     ''draft [F1]'' = JNum (Fin 5)
   \<and> JNum (Fin 5) \<noteq> JStr ''draft [F1]''
   \<and> (\<forall>s. JNum (Fin 5) \<noteq> JStr s)"
  by (simp add: selectAnswer_def jsOr_def)

subsection \<open>Background jobs\<close>

text \<open>
  C6.  When the first status fetch of a resume finds the job completed, the call returns
  the extracted answer at once: it has made that one fetch, the clock has not moved (no
  sleep of the poll loop ran) and the trace holds the resume entry alone.  A second call
  in succession that is given the same completed job ends exactly as the first did, with
  the same answer and one fetch of its own.
\<close>

theorem resume_completed_one_fetch_idempotent:
  assumes "polls 0 = PollOk d" and "rd_status d = ''completed''"
  shows "handleResumeResponse polls responseId now =
           \<lparr> run_outcome = Inr (completedResult responseId d [TrResume ''completed'' responseId]),
             run_fetches = 1, run_clock = now \<rparr>
         \<and> jr_answer (completedResult responseId d [TrResume ''completed'' responseId]) =
             Some (extractText d)
         \<and> (polls 1 = PollOk d \<longrightarrow>
              resumeAgain polls responseId now = handleResumeResponse polls responseId now)"
proof -
  have one: "handleResumeResponse ps responseId t =
           \<lparr> run_outcome = Inr (completedResult responseId d [TrResume ''completed'' responseId]),
             run_fetches = 1, run_clock = t \<rparr>" if "ps 0 = PollOk d" for ps t
    using that assms(2) by (simp add: handleResumeResponse_def Let_def)
  have answer: "jr_answer (completedResult responseId d [TrResume ''completed'' responseId]) =
             Some (extractText d)"
    by (simp add: completedResult_def emptyResult_def)
  have again: "resumeAgain polls responseId now = handleResumeResponse polls responseId now"
    if "polls 1 = PollOk d"
    using that one [of polls now] one [of "\<lambda>k. polls (1 + k)" now] assms(1)
    by (simp add: resumeAgain_def Let_def)
  from one [of polls now] assms(1) answer again show ?thesis by blast
qed

theorem resume_completed_one_fetch_idempotent_witness:
  "run_fetches (handleResumeResponse (\<lambda>k. PollOk doneJob) ''resp_abc123'' 1000) = 1
   \<and> run_clock (handleResumeResponse (\<lambda>k. PollOk doneJob) ''resp_abc123'' 1000) = 1000
   \<and> map_sum id jr_answer (run_outcome (handleResumeResponse (\<lambda>k. PollOk doneJob) ''resp_abc123'' 1000))
       = Inr (Some ''X is a letter.'')
   \<and> map_sum id jr_trace (run_outcome (handleResumeResponse (\<lambda>k. PollOk doneJob) ''resp_abc123'' 1000))
       = Inr [TrResume ''completed'' ''resp_abc123'']
   \<and> resumeAgain (\<lambda>k. PollOk doneJob) ''resp_abc123'' 1000 =
       handleResumeResponse (\<lambda>k. PollOk doneJob) ''resp_abc123'' 1000"
proof -
  have st: "rd_status doneJob = ''completed''" by (simp add: doneJob_def)
  have tx: "extractText doneJob = ''X is a letter.''" by code_simp
  note t = resume_completed_one_fetch_idempotent
    [of "\<lambda>k. PollOk doneJob" doneJob "''resp_abc123''" 1000, OF refl st]
  from t tx show ?thesis
    by (simp add: completedResult_def emptyResult_def)
qed

lemma runPoll_pending_forever:
  assumes "\<forall>k. polls k = PollOk d" and "pending d"
  shows "ps_result s = d \<Longrightarrow> ps_now s - startPoll = maxWait - pollInterval * int j \<Longrightarrow>
         \<exists>s'. runPoll polls startPoll s = Inr s' \<and> ps_result s' = d
              \<and> ps_now s' = ps_now s + pollInterval * int j
              \<and> ps_fetches s' = ps_fetches s + j"
proof (induction j arbitrary: s)
  case 0
  then show ?case by (subst runPoll.simps) simp
next
  case (Suc j)
  define s2 where "s2 = s\<lparr> ps_now := ps_now s + pollInterval, ps_fetches := ps_fetches s + 1,
      ps_errors := 0, ps_result := d,
      ps_trace := ps_trace s @
        [TrPoll (rd_status d) (elapsedSeconds (ps_now s + pollInterval - startPoll))] \<rparr>"
  have lt: "ps_now s - startPoll < maxWait"
    using Suc.prems(2) by (simp add: pollInterval_def)
  have step: "runStep startPoll
                (s\<lparr> ps_now := ps_now s + pollInterval, ps_fetches := ps_fetches s + 1 \<rparr>)
                (polls (ps_fetches s)) = Inr s2"
    using assms(1) by (simp add: runStep_def s2_def)
  have unfold: "runPoll polls startPoll s = runPoll polls startPoll s2"
    using lt Suc.prems(1) assms(2) step by (subst runPoll.simps) simp
  have "ps_result s2 = d" "ps_now s2 - startPoll = maxWait - pollInterval * int j"
    using Suc.prems(2) by (simp_all add: s2_def algebra_simps)
  from Suc.IH [OF this] obtain s' where
    "runPoll polls startPoll s2 = Inr s'" "ps_result s' = d"
    "ps_now s' = ps_now s2 + pollInterval * int j" "ps_fetches s' = ps_fetches s2 + j"
    by blast
  then show ?case
    using unfold by (simp add: s2_def algebra_simps)
qed

lemma resumePoll_pending_forever:
  assumes "\<forall>k. polls k = PollOk d" and "pending d"
  shows "ps_result s = d \<Longrightarrow> ps_now s - startPoll = maxWait - pollInterval * int j \<Longrightarrow>
         \<exists>s'. resumePoll polls responseId startPoll s = Inr s' \<and> ps_result s' = d
              \<and> ps_now s' = ps_now s + pollInterval * int j
              \<and> ps_fetches s' = ps_fetches s + j"
proof (induction j arbitrary: s)
  case 0
  then show ?case by (subst resumePoll.simps) simp
next
  case (Suc j)
  define s2 where "s2 = s\<lparr> ps_now := ps_now s + pollInterval, ps_fetches := ps_fetches s + 1,
      ps_errors := 0, ps_result := d,
      ps_trace := ps_trace s @
        [TrPoll (rd_status d) (elapsedSeconds (ps_now s + pollInterval - startPoll))] \<rparr>"
  have lt: "ps_now s - startPoll < maxWait"
    using Suc.prems(2) by (simp add: pollInterval_def)
  have step: "resumeStep responseId startPoll
                (s\<lparr> ps_now := ps_now s + pollInterval, ps_fetches := ps_fetches s + 1 \<rparr>)
                (polls (ps_fetches s)) = Inr s2"
    using assms(1) by (simp add: resumeStep_def s2_def)
  have unfold: "resumePoll polls responseId startPoll s = resumePoll polls responseId startPoll s2"
    using lt Suc.prems(1) assms(2) step by (subst resumePoll.simps) simp
  have "ps_result s2 = d" "ps_now s2 - startPoll = maxWait - pollInterval * int j"
    using Suc.prems(2) by (simp_all add: s2_def algebra_simps)
  from Suc.IH [OF this] obtain s' where
    "resumePoll polls responseId startPoll s2 = Inr s'" "ps_result s' = d"
    "ps_now s' = ps_now s2 + pollInterval * int j" "ps_fetches s' = ps_fetches s2 + j"
    by blast
  then show ?case
    using unfold by (simp add: s2_def algebra_simps)
qed

lemma stillRunning_pending: "pending stillRunning"
  by (simp add: pending_def stillRunning_def)

text \<open>
  C7 at a job that never leaves \<^verbatim>\<open>in_progress\<close>.  Submitted in background mode and
  polled 360 times over 30 minutes, the operation throws an error whose message is
  \<^verbatim>\<open>Deep research timed out after 30 minutes\<close>: nothing of what it leaves behind names
  the job.  Resumed, the same job ends, after the same wait, with a result that carries the
  job id in \<^verbatim>\<open>response_id\<close> and in its message.
\<close>

theorem submit_timeout_drops_job_id:
  "runDeepResearchModel ''o3-deep-research'' True (Inr stillRunning) neverDone 0 =
     \<lparr> run_outcome = Inl ''Deep research timed out after 30 minutes'',
       run_fetches = 360, run_clock = 1800000 \<rparr>
   \<and> run_fetches (handleResumeResponse neverDone ''resp_abc123'' 0) = 361
   \<and> map_sum id jr_ok (run_outcome (handleResumeResponse neverDone ''resp_abc123'' 0)) = Inr False
   \<and> map_sum id jr_response_id (run_outcome (handleResumeResponse neverDone ''resp_abc123'' 0)) =
       Inr (Some ''resp_abc123'')
   \<and> map_sum id jr_error (run_outcome (handleResumeResponse neverDone ''resp_abc123'' 0)) =
       Inr (Some ''Polling timed out after 30 minutes. Use GET /research/resp_abc123 to resume later.'')"
proof -
  have all: "\<forall>k. neverDone k = PollOk stillRunning"
    by (simp add: neverDone_def)
  let ?tr = "[TrRequest ''o3-deep-research'' True,
              TrInitialResponse (rd_status stillRunning) (rd_id stillRunning)]"
  let ?s0 = "\<lparr> ps_result = stillRunning, ps_errors = 0,
               ps_trace = ?tr @ [TrBackground (rd_id stillRunning)],
               ps_now = 0, ps_fetches = 0 \<rparr>"
  have "\<exists>s'. runPoll neverDone 0 ?s0 = Inr s' \<and> ps_result s' = stillRunning
              \<and> ps_now s' = ps_now ?s0 + pollInterval * int 360
              \<and> ps_fetches s' = ps_fetches ?s0 + 360"
    by (rule runPoll_pending_forever [OF all stillRunning_pending])
      (simp_all add: maxWait_def pollInterval_def)
  then obtain s' where s': "runPoll neverDone 0 ?s0 = Inr s'" "ps_result s' = stillRunning"
    "ps_now s' = 1800000" "ps_fetches s' = 360"
    by (auto simp: pollInterval_def)
  have submit: "runDeepResearchModel ''o3-deep-research'' True (Inr stillRunning) neverDone 0 =
     \<lparr> run_outcome = Inl ''Deep research timed out after 30 minutes'',
       run_fetches = 360, run_clock = 1800000 \<rparr>"
    using s' stillRunning_pending by (simp add: runDeepResearchModel_def Let_def)
  let ?r0 = "\<lparr> ps_result = stillRunning, ps_errors = 0,
               ps_trace = [TrResume (rd_status stillRunning) ''resp_abc123'']
                          @ [TrPolling (rd_status stillRunning)],
               ps_now = 0, ps_fetches = 1 \<rparr>"
  have "\<exists>r'. resumePoll neverDone ''resp_abc123'' 0 ?r0 = Inr r' \<and> ps_result r' = stillRunning
              \<and> ps_now r' = ps_now ?r0 + pollInterval * int 360
              \<and> ps_fetches r' = ps_fetches ?r0 + 360"
    by (rule resumePoll_pending_forever [OF all stillRunning_pending])
      (simp_all add: maxWait_def pollInterval_def)
  then obtain r' where r': "resumePoll neverDone ''resp_abc123'' 0 ?r0 = Inr r'"
    "ps_result r' = stillRunning" "ps_fetches r' = 361"
    by auto
  have st: "rd_status stillRunning = ''in_progress''" by (simp add: stillRunning_def)
  have resume: "handleResumeResponse neverDone ''resp_abc123'' 0 =
     \<lparr> run_outcome = Inr (emptyResult\<lparr>
           jr_error := Some (''Polling timed out after 30 minutes. Use GET /research/''
                             @ ''resp_abc123'' @ '' to resume later.''),
           jr_response_id := Some ''resp_abc123'',
           jr_status := Some ''in_progress'',
           jr_trace := ps_trace r' \<rparr>),
       run_fetches = 361, run_clock = ps_now r' \<rparr>"
    using r' stillRunning_pending st
    by (simp add: handleResumeResponse_def Let_def neverDone_def)
  show ?thesis
    unfolding resume submit by (simp add: emptyResult_def)
qed

end
